theory Spec2Isabelle
  imports Main
begin

section \<open>Data model of \<open>ssh_edr.py\<close>\<close>

text \<open>
  A \<open>datetime\<close> is modelled as its integer count of microseconds (the resolution of
  Python's \<open>datetime\<close>) since 0001-01-01 00:00:00, a \<open>timedelta\<close> as an integer
  number of microseconds. Python's datetimes end with year 9999 (\<open>is_datetime\<close> below),
  and a subtraction that leaves this range raises \<open>OverflowError\<close>.
\<close>

type_synonym ip = string
type_synonym user = string
type_synonym datetime = int
type_synonym timedelta = int

text \<open>The values stored in the \<open>info\<close> dictionary of an alert: strings and integers.\<close>

datatype json = JStr string | JInt int

text \<open>The dictionary built by \<open>_alert\<close>: keys \<open>ts\<close>, \<open>kind\<close> and \<open>info\<close>.\<close>

record alert =
  ts :: datetime
  kind :: string
  info :: "(string \<times> json) list"

text \<open>
  What the engine does to the outside, in the order it does it: \<open>_alert\<close> prints the
  alert and tries to append it to the alert file; \<open>_block_ip\<close> prints the iptables
  command and, with \<open>execute_block\<close>, runs it. A failure of the file append or of the
  command is caught by the source and only reported on stderr.
\<close>

datatype effect =
    PrintAlert alert
  | AppendAlertFile alert
  | PrintAction "string list"
  | CheckCall "string list"

text \<open>
  The fields of class \<open>SSHEdr\<close>. The four \<open>defaultdict\<close>s are maps; a key is present
  once some access has created its entry. \<open>effects\<close> is not a field of the class: it
  records the calls made to the outside.
\<close>

record ssh_edr =
  failed_threshold :: int
  window :: timedelta
  invalid_threshold :: int
  failed :: "ip \<rightharpoonup> datetime list"
  invalid_user :: "ip \<rightharpoonup> datetime list"
  successful_logins :: "user \<rightharpoonup> (ip \<times> datetime) list"
  known_user_ips :: "user \<rightharpoonup> ip set"
  alerts :: "alert list"
  dry_run :: bool
  execute_block :: bool
  effects :: "effect list"

text \<open>
  The clock is read by \<open>self._now()\<close> at the start of each handler and once more by
  every call of \<open>_alert\<close>. The values read while one line is processed are inputs of
  the step: \<open>now\<close> is what \<open>_now()\<close> returns, \<open>alert_ts\<close> what the
  \<open>brute_force_suspected\<close>, \<open>invalid_user_burst\<close> or \<open>successful_after_failures\<close>
  alert reads, \<open>alert_ts2\<close> what the \<open>login_from_new_ip\<close> alert reads.
\<close>

record clock =
  now :: datetime
  alert_ts :: datetime
  alert_ts2 :: datetime

section \<open>The engine\<close>

text \<open>\<open>SSHEdr.__init__\<close>: \<open>timedelta(seconds=window_seconds)\<close> in microseconds.\<close>

definition SSHEdr :: "int \<Rightarrow> int \<Rightarrow> int \<Rightarrow> bool \<Rightarrow> bool \<Rightarrow> ssh_edr" where
  "SSHEdr ft window_seconds it dr eb =
     \<lparr> failed_threshold = ft,
       window = window_seconds * 1000000,
       invalid_threshold = it,
       failed = Map.empty,
       invalid_user = Map.empty,
       successful_logins = Map.empty,
       known_user_ips = Map.empty,
       alerts = [],
       dry_run = dr,
       execute_block = eb,
       effects = [] \<rparr>"

text \<open>
  Indexing a \<open>defaultdict\<close>: \<open>dd_get m d k\<close> is the value returned by \<open>m[k]\<close> when the
  default factory gives \<open>d\<close>, and \<open>dd_touch m d k\<close> is the dictionary afterwards,
  with the entry created when it was missing.
\<close>

definition dd_get :: "('k \<rightharpoonup> 'v) \<Rightarrow> 'v \<Rightarrow> 'k \<Rightarrow> 'v" where
  "dd_get m d k = (case m k of None \<Rightarrow> d | Some v \<Rightarrow> v)"

definition dd_touch :: "('k \<rightharpoonup> 'v) \<Rightarrow> 'v \<Rightarrow> 'k \<Rightarrow> ('k \<rightharpoonup> 'v)" where
  "dd_touch m d k = m(k \<mapsto> dd_get m d k)"

text \<open>\<open>_prune\<close>: pop from the left while the leftmost entry is before the cutoff.\<close>

fun prune :: "datetime list \<Rightarrow> datetime \<Rightarrow> datetime list" where
  "prune [] cutoff = []"
| "prune (x # dq) cutoff = (if x < cutoff then prune dq cutoff else x # dq)"

text \<open>
  \<open>int(self.window.total_seconds())\<close>: the float division by \<open>10**6\<close> followed by
  \<open>int\<close>, which truncates towards zero.
\<close>

definition total_seconds_int :: "timedelta \<Rightarrow> int" where
  "total_seconds_int w = (if 0 \<le> w then w div 1000000 else - ((- w) div 1000000))"

text \<open>\<open>_alert\<close>, with the clock value it reads as a parameter.\<close>

definition do_alert :: "ssh_edr \<Rightarrow> datetime \<Rightarrow> string \<Rightarrow> (string \<times> json) list \<Rightarrow> ssh_edr" where
  "do_alert s t k i =
     (let a = \<lparr> ts = t, kind = k, info = i \<rparr>
      in s\<lparr> alerts := alerts s @ [a],
             effects := effects s @ [PrintAlert a, AppendAlertFile a] \<rparr>)"

definition iptables_cmd :: "ip \<Rightarrow> string list" where
  "iptables_cmd a = [''iptables'', ''-I'', ''INPUT'', ''-s'', a, ''-j'', ''DROP'']"

text \<open>\<open>_block_ip\<close>.\<close>

definition block_ip :: "ssh_edr \<Rightarrow> ip \<Rightarrow> ssh_edr" where
  "block_ip s a =
     (let cmd = iptables_cmd a;
          s1 = s\<lparr> effects := effects s @ [PrintAction cmd] \<rparr>
      in if execute_block s1 then s1\<lparr> effects := effects s1 @ [CheckCall cmd] \<rparr> else s1)"

text \<open>
  \<open>record_failed\<close>, as it runs when \<open>now - self.window\<close> is a datetime;
  \<open>record_failed_or_raise\<close> below adds the path on which the subtraction raises.
\<close>

definition record_failed :: "ssh_edr \<Rightarrow> clock \<Rightarrow> ip \<Rightarrow> ssh_edr" where
  "record_failed s c a =
     (let dq = prune (dd_get (failed s) [] a @ [now c]) (now c - window s);
          s1 = s\<lparr> failed := (failed s)(a \<mapsto> dq) \<rparr>
      in if failed_threshold s1 \<le> int (length dq)
         then (let s2 = do_alert s1 (alert_ts c) ''brute_force_suspected''
                          [(''ip'', JStr a), (''count'', JInt (int (length dq))),
                           (''window_s'', JInt (total_seconds_int (window s1)))]
               in if \<not> dry_run s2 then block_ip s2 a else s2)
         else s1)"

text \<open>
  \<open>record_invalid_user\<close>, as it runs when \<open>now - self.window\<close> is a datetime;
  \<open>record_invalid_user_or_raise\<close> below adds the path on which the subtraction raises.
\<close>

definition record_invalid_user :: "ssh_edr \<Rightarrow> clock \<Rightarrow> ip \<Rightarrow> user \<Rightarrow> ssh_edr" where
  "record_invalid_user s c a u =
     (let dq = prune (dd_get (invalid_user s) [] a @ [now c]) (now c - window s);
          s1 = s\<lparr> invalid_user := (invalid_user s)(a \<mapsto> dq) \<rparr>
      in if invalid_threshold s1 \<le> int (length dq)
         then (let s2 = do_alert s1 (alert_ts c) ''invalid_user_burst''
                          [(''ip'', JStr a), (''user'', JStr u), (''count'', JInt (int (length dq)))]
               in if \<not> dry_run s2 then block_ip s2 a else s2)
         else s1)"

text \<open>
  A \<open>deque(maxlen=50)\<close>: appending to a full deque discards the leftmost entry.
\<close>

definition append_maxlen :: "nat \<Rightarrow> 'a list \<Rightarrow> 'a \<Rightarrow> 'a list" where
  "append_maxlen n dq x = (if n \<le> length dq then tl dq @ [x] else dq @ [x])"

text \<open>
  \<open>record_success\<close>. Reading \<open>self.failed[ip]\<close> creates the entry of \<open>ip\<close> when it is
  missing; so does reading \<open>self.known_user_ips[user]\<close> and
  \<open>self.successful_logins[user]\<close>.
\<close>

definition record_success :: "ssh_edr \<Rightarrow> clock \<Rightarrow> user \<Rightarrow> ip \<Rightarrow> ssh_edr" where
  "record_success s c u a =
     (let fail_count = int (length (dd_get (failed s) [] a));
          s1 = s\<lparr> failed := dd_touch (failed s) [] a \<rparr>;
          s2 = (if max 1 (failed_threshold s1 div 2) \<le> fail_count
                then do_alert s1 (alert_ts c) ''successful_after_failures''
                       [(''user'', JStr u), (''ip'', JStr a), (''recent_failed'', JInt fail_count)]
                else s1);
          known = dd_get (known_user_ips s2) {} u;
          s3 = s2\<lparr> known_user_ips := dd_touch (known_user_ips s2) {} u \<rparr>;
          s4 = (if a \<notin> known
                then (do_alert s3 (alert_ts2 c) ''login_from_new_ip'' [(''user'', JStr u), (''ip'', JStr a)])
                       \<lparr> known_user_ips := (known_user_ips s3)(u \<mapsto> insert a known) \<rparr>
                else s3)
      in s4\<lparr> successful_logins :=
               (successful_logins s4)(u \<mapsto> append_maxlen 50 (dd_get (successful_logins s4) [] u) (a, now c)) \<rparr>)"

section \<open>Reading a line\<close>

text \<open>
  The part of Python's \<open>re\<close> that the four patterns use: literal text, one-or-more and
  zero-or-more repetitions of a character class (greedy), sequence, alternation, an optional
  part (greedy) and numbered capture groups. A line is a list of 8-bit characters, read as
  Latin-1 code points: \<open>\d\<close> is a decimal digit, \<open>\S\<close> anything but the white space of
  \<open>str.isspace\<close> in that range, and \<open>.\<close> anything but a line feed.
\<close>

datatype cls = Digit | NonSpace | Dot

datatype re =
    Lit string
  | Plus cls
  | Star cls
  | Seq re re
  | Alt re re
  | Opt re
  | Grp nat re

definition is_space :: "char \<Rightarrow> bool" where
  "is_space x = (of_char x \<in> {9, 10, 11, 12, 13, 28, 29, 30, 31, 32, 133, 160 :: nat})"

fun cls_ok :: "cls \<Rightarrow> char \<Rightarrow> bool" where
  "cls_ok Digit x = (48 \<le> (of_char x :: nat) \<and> (of_char x :: nat) \<le> 57)"
| "cls_ok NonSpace x = (\<not> is_space x)"
| "cls_ok Dot x = (x \<noteq> CHR 0x0A)"

text \<open>
  The backtracking matcher, in continuation-passing style: \<open>k\<close> is what remains to be
  matched after the current piece, given the rest of the input and the groups captured
  so far. A greedy repetition tries the longest run first and gives characters back one
  by one; an alternative or an optional part is tried first and abandoned only when the
  rest fails.
\<close>

type_synonym groups = "nat \<rightharpoonup> string"

fun rep :: "cls \<Rightarrow> string \<Rightarrow> groups \<Rightarrow> (string \<Rightarrow> groups \<Rightarrow> 'r option) \<Rightarrow> 'r option" where
  "rep c [] g k = k [] g"
| "rep c (x # xs) g k =
     (if cls_ok c x
      then (case rep c xs g k of Some r \<Rightarrow> Some r | None \<Rightarrow> k (x # xs) g)
      else k (x # xs) g)"

fun is_prefix :: "string \<Rightarrow> string \<Rightarrow> bool" where
  "is_prefix [] s = True"
| "is_prefix (x # xs) [] = False"
| "is_prefix (x # xs) (y # ys) = (x = y \<and> is_prefix xs ys)"

fun match_re :: "re \<Rightarrow> string \<Rightarrow> groups \<Rightarrow> (string \<Rightarrow> groups \<Rightarrow> 'r option) \<Rightarrow> 'r option" where
  "match_re (Lit l) s g k = (if is_prefix l s then k (drop (length l) s) g else None)"
| "match_re (Plus c) s g k =
     (case s of [] \<Rightarrow> None | x # xs \<Rightarrow> if cls_ok c x then rep c xs g k else None)"
| "match_re (Star c) s g k = rep c s g k"
| "match_re (Seq a b) s g k = match_re a s g (\<lambda>s' g'. match_re b s' g' k)"
| "match_re (Alt a b) s g k =
     (case match_re a s g k of Some r \<Rightarrow> Some r | None \<Rightarrow> match_re b s g k)"
| "match_re (Opt a) s g k =
     (case match_re a s g k of Some r \<Rightarrow> Some r | None \<Rightarrow> k s g)"
| "match_re (Grp n a) s g k =
     match_re a s g (\<lambda>s' g'. k s' (g'(n \<mapsto> take (length s - length s') s)))"

text \<open>\<open>pattern.search(line)\<close>: the match at the leftmost position that has one.\<close>

fun search :: "re \<Rightarrow> string \<Rightarrow> groups option" where
  "search r [] = match_re r [] Map.empty (\<lambda>s' g. Some g)"
| "search r (x # xs) =
     (case match_re r (x # xs) Map.empty (\<lambda>s' g. Some g) of
        Some g \<Rightarrow> Some g
      | None \<Rightarrow> search r xs)"

text \<open>
  \<open>m.group(n)\<close>. The source reads only groups that every match of the pattern sets
  (lemmas \<open>FAILED_RE_group\<close> to \<open>PAM_FAILED_RE_group\<close> below).
\<close>

definition group :: "groups \<Rightarrow> nat \<Rightarrow> string" where
  "group g n = (case g n of Some x \<Rightarrow> x | None \<Rightarrow> [])"

definition IP_RE :: re where
  "IP_RE = Seq (Plus Digit) (Seq (Lit ''.'') (Seq (Plus Digit) (Seq (Lit ''.'')
             (Seq (Plus Digit) (Seq (Lit ''.'') (Plus Digit))))))"

definition FAILED_RE :: re where
  "FAILED_RE =
     Seq (Lit ''Failed password for '')
       (Seq (Opt (Seq (Opt (Grp 1 (Lit ''invalid user ''))) (Seq (Grp 2 (Plus NonSpace)) (Lit '' ''))))
         (Seq (Lit ''from '') (Grp 3 IP_RE)))"

definition INVALID_USER_RE :: re where
  "INVALID_USER_RE =
     Seq (Lit ''Invalid user '') (Seq (Grp 1 (Plus NonSpace)) (Seq (Lit '' from '') (Grp 2 IP_RE)))"

definition ACCEPTED_RE :: re where
  "ACCEPTED_RE =
     Seq (Lit ''Accepted '') (Seq (Alt (Lit ''password'') (Lit ''publickey''))
       (Seq (Lit '' for '') (Seq (Grp 1 (Plus NonSpace)) (Seq (Lit '' from '') (Grp 2 IP_RE)))))"

definition PAM_FAILED_RE :: re where
  "PAM_FAILED_RE =
     Seq (Lit ''authentication failure;'') (Seq (Star Dot) (Seq (Lit ''rhost='') (Grp 1 IP_RE)))"

text \<open>\<open>parse_line\<close>: the four searches in the order of the source, each returning at once.\<close>

definition parse_line :: "ssh_edr \<Rightarrow> clock \<Rightarrow> string \<Rightarrow> ssh_edr" where
  "parse_line s c line =
     (case search FAILED_RE line of
        Some m \<Rightarrow> record_failed s c (group m 3)
      | None \<Rightarrow>
     (case search INVALID_USER_RE line of
        Some m \<Rightarrow> record_invalid_user s c (group m 2) (group m 1)
      | None \<Rightarrow>
     (case search ACCEPTED_RE line of
        Some m \<Rightarrow> record_success s c (group m 1) (group m 2)
      | None \<Rightarrow>
     (case search PAM_FAILED_RE line of
        Some m \<Rightarrow> record_failed s c (group m 1)
      | None \<Rightarrow> s))))"

text \<open>
  The four calls that \<open>parse_line\<close> makes, named as events: which handler runs and with
  which arguments. \<open>classify\<close> is the choice made by \<open>parse_line\<close>, \<open>process\<close> the call.
\<close>

datatype event =
    FailedLogin ip
  | InvalidUserAttempt ip user
  | SuccessfulLogin user ip
  | AuthFailure ip

definition classify :: "string \<Rightarrow> event option" where
  "classify line =
     (case search FAILED_RE line of
        Some m \<Rightarrow> Some (FailedLogin (group m 3))
      | None \<Rightarrow>
     (case search INVALID_USER_RE line of
        Some m \<Rightarrow> Some (InvalidUserAttempt (group m 2) (group m 1))
      | None \<Rightarrow>
     (case search ACCEPTED_RE line of
        Some m \<Rightarrow> Some (SuccessfulLogin (group m 1) (group m 2))
      | None \<Rightarrow>
     (case search PAM_FAILED_RE line of
        Some m \<Rightarrow> Some (AuthFailure (group m 1))
      | None \<Rightarrow> None))))"

fun process :: "ssh_edr \<Rightarrow> clock \<Rightarrow> event \<Rightarrow> ssh_edr" where
  "process s c (FailedLogin a) = record_failed s c a"
| "process s c (InvalidUserAttempt a u) = record_invalid_user s c a u"
| "process s c (SuccessfulLogin u a) = record_success s c u a"
| "process s c (AuthFailure a) = record_failed s c a"

text \<open>A run of the engine over the events of a stream, each with its clock readings.\<close>

fun run :: "ssh_edr \<Rightarrow> (clock \<times> event) list \<Rightarrow> ssh_edr" where
  "run s [] = s"
| "run s (ce # es) = run (process s (fst ce) (snd ce)) es"

section \<open>The subtraction that raises\<close>

text \<open>
  The datetimes of Python: from 0001-01-01 00:00:00 to 9999-12-31 23:59:59.999999.
\<close>

definition is_datetime :: "int \<Rightarrow> bool" where
  "is_datetime t = (0 \<le> t \<and> t \<le> 315537897599999999)"

datatype error = OverflowError

text \<open>
  What a call does: it returns, leaving the engine in a state, or it raises, leaving the
  engine in the state reached at the raise.
\<close>

datatype outcome = Returns ssh_edr | Raises error ssh_edr

text \<open>
  \<open>record_failed\<close> and \<open>record_invalid_user\<close> with the raise of
  \<open>cutoff = now - self.window\<close>: the arrival time is already appended, and nothing is
  pruned, alerted or blocked.
\<close>

definition record_failed_or_raise :: "ssh_edr \<Rightarrow> clock \<Rightarrow> ip \<Rightarrow> outcome" where
  "record_failed_or_raise s c a =
     (if is_datetime (now c - window s)
      then Returns (record_failed s c a)
      else Raises OverflowError (s\<lparr> failed := (failed s)(a \<mapsto> dd_get (failed s) [] a @ [now c]) \<rparr>))"

definition record_invalid_user_or_raise :: "ssh_edr \<Rightarrow> clock \<Rightarrow> ip \<Rightarrow> user \<Rightarrow> outcome" where
  "record_invalid_user_or_raise s c a u =
     (if is_datetime (now c - window s)
      then Returns (record_invalid_user s c a u)
      else Raises OverflowError
             (s\<lparr> invalid_user := (invalid_user s)(a \<mapsto> dd_get (invalid_user s) [] a @ [now c]) \<rparr>))"

text \<open>
  One event, and a stream of events, with the raise: nothing in \<open>parse_line\<close> or in
  \<open>run\<close> catches the exception, so the stream ends at the first event that raises.
\<close>

fun process_or_raise :: "ssh_edr \<Rightarrow> clock \<Rightarrow> event \<Rightarrow> outcome" where
  "process_or_raise s c (FailedLogin a) = record_failed_or_raise s c a"
| "process_or_raise s c (InvalidUserAttempt a u) = record_invalid_user_or_raise s c a u"
| "process_or_raise s c (SuccessfulLogin u a) = Returns (record_success s c u a)"
| "process_or_raise s c (AuthFailure a) = record_failed_or_raise s c a"

fun run_or_raise :: "ssh_edr \<Rightarrow> (clock \<times> event) list \<Rightarrow> outcome" where
  "run_or_raise s [] = Returns s"
| "run_or_raise s (ce # es) =
     (case process_or_raise s (fst ce) (snd ce) of
        Returns s' \<Rightarrow> run_or_raise s' es
      | Raises x s' \<Rightarrow> Raises x s')"

text \<open>
  The events whose handler does not raise with window \<open>w\<close>: a successful login computes
  no cutoff, the others need \<open>now - w\<close> to be a datetime.
\<close>

fun cutoff_ok :: "timedelta \<Rightarrow> clock \<times> event \<Rightarrow> bool" where
  "cutoff_ok w (c, SuccessfulLogin u a) = True"
| "cutoff_ok w (c, e) = is_datetime (now c - w)"

section \<open>Observations on states and streams\<close>

text \<open>
  A block request is a call of \<open>_block_ip\<close>: it always prints its command and runs it
  only with \<open>execute_block\<close>. \<open>block_requests\<close> lists the commands printed,
  \<open>check_calls\<close> the commands run.
\<close>

fun block_requests :: "effect list \<Rightarrow> string list list" where
  "block_requests [] = []"
| "block_requests (PrintAction cmd # es) = cmd # block_requests es"
| "block_requests (e # es) = block_requests es"

fun check_calls :: "effect list \<Rightarrow> string list list" where
  "check_calls [] = []"
| "check_calls (CheckCall cmd # es) = cmd # check_calls es"
| "check_calls (e # es) = check_calls es"

text \<open>The arrival times of a stream, and of its events that reach one deque of one address.\<close>

definition times :: "(clock \<times> event) list \<Rightarrow> datetime list" where
  "times es = map (\<lambda>ce. now (fst ce)) es"

fun is_failed_for :: "ip \<Rightarrow> event \<Rightarrow> bool" where
  "is_failed_for a (FailedLogin b) = (a = b)"
| "is_failed_for a (AuthFailure b) = (a = b)"
| "is_failed_for a e = False"

fun is_invalid_for :: "ip \<Rightarrow> event \<Rightarrow> bool" where
  "is_invalid_for a (InvalidUserAttempt b u) = (a = b)"
| "is_invalid_for a e = False"

definition failed_times :: "ip \<Rightarrow> (clock \<times> event) list \<Rightarrow> datetime list" where
  "failed_times a es = times (filter (\<lambda>ce. is_failed_for a (snd ce)) es)"

definition invalid_times :: "ip \<Rightarrow> (clock \<times> event) list \<Rightarrow> datetime list" where
  "invalid_times a es = times (filter (\<lambda>ce. is_invalid_for a (snd ce)) es)"

text \<open>The entries of a list of arrival times that are not older than \<open>w\<close> at time \<open>t\<close>.\<close>

definition recent :: "timedelta \<Rightarrow> datetime \<Rightarrow> datetime list \<Rightarrow> datetime list" where
  "recent w t xs = filter (\<lambda>x. t - w \<le> x) xs"

text \<open>The four alerts as the handlers build them.\<close>

definition brute_force_alert :: "datetime \<Rightarrow> ip \<Rightarrow> nat \<Rightarrow> timedelta \<Rightarrow> alert" where
  "brute_force_alert t a n w =
     \<lparr> ts = t, kind = ''brute_force_suspected'',
       info = [(''ip'', JStr a), (''count'', JInt (int n)), (''window_s'', JInt (total_seconds_int w))] \<rparr>"

definition invalid_user_alert :: "datetime \<Rightarrow> ip \<Rightarrow> user \<Rightarrow> nat \<Rightarrow> alert" where
  "invalid_user_alert t a u n =
     \<lparr> ts = t, kind = ''invalid_user_burst'',
       info = [(''ip'', JStr a), (''user'', JStr u), (''count'', JInt (int n))] \<rparr>"

definition after_failures_alert :: "datetime \<Rightarrow> user \<Rightarrow> ip \<Rightarrow> nat \<Rightarrow> alert" where
  "after_failures_alert t u a n =
     \<lparr> ts = t, kind = ''successful_after_failures'',
       info = [(''user'', JStr u), (''ip'', JStr a), (''recent_failed'', JInt (int n))] \<rparr>"

definition new_ip_alert :: "datetime \<Rightarrow> user \<Rightarrow> ip \<Rightarrow> alert" where
  "new_ip_alert t u a =
     \<lparr> ts = t, kind = ''login_from_new_ip'', info = [(''user'', JStr u), (''ip'', JStr a)] \<rparr>"

text \<open>
  The \<open>count\<close> fields of the \<open>brute_force_suspected\<close> alerts of one address, in the
  order of the alert log, and the \<open>login_from_new_ip\<close> alerts of one user and address.
\<close>

definition brute_force_counts :: "ip \<Rightarrow> alert list \<Rightarrow> json option list" where
  "brute_force_counts a al =
     map (\<lambda>x. map_of (info x) ''count'')
       (filter (\<lambda>x. kind x = ''brute_force_suspected'' \<and> map_of (info x) ''ip'' = Some (JStr a)) al)"

definition new_ip_alerts :: "user \<Rightarrow> ip \<Rightarrow> alert list \<Rightarrow> alert list" where
  "new_ip_alerts u a al =
     filter (\<lambda>x. kind x = ''login_from_new_ip'' \<and> info x = [(''user'', JStr u), (''ip'', JStr a)]) al"

text \<open>
  The entries that a stream appends to the success history of one user, and the keys
  that an event looks up in \<open>failed\<close> and in \<open>invalid_user\<close>.
\<close>

fun success_entry :: "user \<Rightarrow> clock \<times> event \<Rightarrow> (ip \<times> datetime) list" where
  "success_entry u (c, SuccessfulLogin v a) = (if u = v then [(a, now c)] else [])"
| "success_entry u (c, e) = []"

definition success_entries :: "user \<Rightarrow> (clock \<times> event) list \<Rightarrow> (ip \<times> datetime) list" where
  "success_entries u es = concat (map (success_entry u) es)"

fun touches_failed :: "event \<Rightarrow> ip set" where
  "touches_failed (FailedLogin a) = {a}"
| "touches_failed (AuthFailure a) = {a}"
| "touches_failed (SuccessfulLogin u a) = {a}"
| "touches_failed (InvalidUserAttempt a u) = {}"

fun touches_invalid :: "event \<Rightarrow> ip set" where
  "touches_invalid (InvalidUserAttempt a u) = {a}"
| "touches_invalid e = {}"

text \<open>
  The deque that a stream with arrival times \<open>xs\<close> leaves behind when the clock never
  goes back: the times that are recent at the last of them.
\<close>

definition window_deque :: "timedelta \<Rightarrow> datetime list \<Rightarrow> datetime list" where
  "window_deque w xs = (if xs = [] then [] else recent w (last xs) xs)"

text \<open>The groups that every match of a pattern sets.\<close>

fun sure_groups :: "re \<Rightarrow> nat set" where
  "sure_groups (Lit l) = {}"
| "sure_groups (Plus c) = {}"
| "sure_groups (Star c) = {}"
| "sure_groups (Seq a b) = sure_groups a \<union> sure_groups b"
| "sure_groups (Alt a b) = sure_groups a \<inter> sure_groups b"
| "sure_groups (Opt a) = {}"
| "sure_groups (Grp n a) = insert n (sure_groups a)"

section \<open>Basic facts\<close>

lemma block_requests_append: "block_requests (xs @ ys) = block_requests xs @ block_requests ys"
  by (induction xs rule: block_requests.induct) simp_all

lemma check_calls_append: "check_calls (xs @ ys) = check_calls xs @ check_calls ys"
  by (induction xs rule: check_calls.induct) simp_all

lemma run_append: "run s (es @ fs) = run (run s es) fs"
  by (induction es arbitrary: s) simp_all

lemma run_snoc: "run s (es @ [ce]) = process (run s es) (fst ce) (snd ce)"
  by (simp add: run_append)

lemma record_success_alerts:
  "alerts (record_success s c u a) =
     alerts s
     @ (if max 1 (failed_threshold s div 2) \<le> int (length (dd_get (failed s) [] a))
        then [after_failures_alert (alert_ts c) u a (length (dd_get (failed s) [] a))]
        else [])
     @ (if a \<notin> dd_get (known_user_ips s) {} u then [new_ip_alert (alert_ts2 c) u a] else [])"
  by (simp add: record_success_def do_alert_def Let_def after_failures_alert_def new_ip_alert_def)

lemma record_success_failed: "failed (record_success s c u a) = dd_touch (failed s) [] a"
  by (simp add: record_success_def do_alert_def Let_def)

lemma dd_get_touch: "dd_get (dd_touch m d k) d j = dd_get m d j"
  by (simp add: dd_get_def dd_touch_def split: option.splits)

lemma record_failed_failed:
  "failed (record_failed s c a) =
     (failed s)(a \<mapsto> prune (dd_get (failed s) [] a @ [now c]) (now c - window s))"
  by (simp add: record_failed_def do_alert_def block_ip_def Let_def)

lemma record_failed_alerts:
  "alerts (record_failed s c a) =
     alerts s
     @ (if failed_threshold s \<le> int (length (dd_get (failed (record_failed s c a)) [] a))
        then [brute_force_alert (alert_ts c) a (length (dd_get (failed (record_failed s c a)) [] a)) (window s)]
        else [])"
  by (simp add: record_failed_def do_alert_def block_ip_def Let_def brute_force_alert_def dd_get_def)

lemma record_failed_block_requests:
  "block_requests (effects (record_failed s c a)) =
     block_requests (effects s)
     @ (if \<not> dry_run s \<and> failed_threshold s \<le> int (length (dd_get (failed (record_failed s c a)) [] a))
        then [iptables_cmd a] else [])"
  by (simp add: record_failed_def do_alert_def block_ip_def Let_def dd_get_def block_requests_append)

lemma record_failed_check_calls:
  "check_calls (effects (record_failed s c a)) =
     check_calls (effects s)
     @ (if \<not> dry_run s \<and> execute_block s \<and> failed_threshold s \<le> int (length (dd_get (failed (record_failed s c a)) [] a))
        then [iptables_cmd a] else [])"
  by (simp add: record_failed_def do_alert_def block_ip_def Let_def dd_get_def check_calls_append)

lemma record_failed_frame:
  "invalid_user (record_failed s c a) = invalid_user s"
  "successful_logins (record_failed s c a) = successful_logins s"
  "known_user_ips (record_failed s c a) = known_user_ips s"
  "failed_threshold (record_failed s c a) = failed_threshold s"
  "invalid_threshold (record_failed s c a) = invalid_threshold s"
  "window (record_failed s c a) = window s"
  "dry_run (record_failed s c a) = dry_run s"
  "execute_block (record_failed s c a) = execute_block s"
  by (simp_all add: record_failed_def do_alert_def block_ip_def Let_def)

lemma record_invalid_user_invalid_user:
  "invalid_user (record_invalid_user s c a u) =
     (invalid_user s)(a \<mapsto> prune (dd_get (invalid_user s) [] a @ [now c]) (now c - window s))"
  by (simp add: record_invalid_user_def do_alert_def block_ip_def Let_def)

lemma record_invalid_user_alerts:
  "alerts (record_invalid_user s c a u) =
     alerts s
     @ (if invalid_threshold s \<le> int (length (dd_get (invalid_user (record_invalid_user s c a u)) [] a))
        then [invalid_user_alert (alert_ts c) a u (length (dd_get (invalid_user (record_invalid_user s c a u)) [] a))]
        else [])"
  by (simp add: record_invalid_user_def do_alert_def block_ip_def Let_def invalid_user_alert_def dd_get_def)

lemma record_invalid_user_block_requests:
  "block_requests (effects (record_invalid_user s c a u)) =
     block_requests (effects s)
     @ (if \<not> dry_run s \<and> invalid_threshold s \<le> int (length (dd_get (invalid_user (record_invalid_user s c a u)) [] a))
        then [iptables_cmd a] else [])"
  by (simp add: record_invalid_user_def do_alert_def block_ip_def Let_def dd_get_def block_requests_append)

lemma record_invalid_user_check_calls:
  "check_calls (effects (record_invalid_user s c a u)) =
     check_calls (effects s)
     @ (if \<not> dry_run s \<and> execute_block s \<and> invalid_threshold s \<le> int (length (dd_get (invalid_user (record_invalid_user s c a u)) [] a))
        then [iptables_cmd a] else [])"
  by (simp add: record_invalid_user_def do_alert_def block_ip_def Let_def dd_get_def check_calls_append)

lemma record_invalid_user_frame:
  "failed (record_invalid_user s c a u) = failed s"
  "successful_logins (record_invalid_user s c a u) = successful_logins s"
  "known_user_ips (record_invalid_user s c a u) = known_user_ips s"
  "failed_threshold (record_invalid_user s c a u) = failed_threshold s"
  "invalid_threshold (record_invalid_user s c a u) = invalid_threshold s"
  "window (record_invalid_user s c a u) = window s"
  "dry_run (record_invalid_user s c a u) = dry_run s"
  "execute_block (record_invalid_user s c a u) = execute_block s"
  by (simp_all add: record_invalid_user_def do_alert_def block_ip_def Let_def)

lemma record_success_frame:
  "invalid_user (record_success s c u a) = invalid_user s"
  "failed_threshold (record_success s c u a) = failed_threshold s"
  "invalid_threshold (record_success s c u a) = invalid_threshold s"
  "window (record_success s c u a) = window s"
  "dry_run (record_success s c u a) = dry_run s"
  "execute_block (record_success s c u a) = execute_block s"
  by (simp_all add: record_success_def do_alert_def Let_def)

lemma record_success_known:
  "known_user_ips (record_success s c u a) =
     (known_user_ips s)(u \<mapsto> insert a (dd_get (known_user_ips s) {} u))"
  by (auto simp add: record_success_def do_alert_def Let_def dd_touch_def insert_absorb)

lemma record_success_history:
  "successful_logins (record_success s c u a) =
     (successful_logins s)(u \<mapsto> append_maxlen 50 (dd_get (successful_logins s) [] u) (a, now c))"
  by (simp add: record_success_def do_alert_def Let_def)

lemma process_config:
  "failed_threshold (process s c e) = failed_threshold s"
  "invalid_threshold (process s c e) = invalid_threshold s"
  "window (process s c e) = window s"
  "dry_run (process s c e) = dry_run s"
  "execute_block (process s c e) = execute_block s"
  by (cases e; simp add: record_failed_frame record_invalid_user_frame record_success_frame)+

lemma run_config:
  "failed_threshold (run s es) = failed_threshold s"
  "invalid_threshold (run s es) = invalid_threshold s"
  "window (run s es) = window s"
  "dry_run (run s es) = dry_run s"
  "execute_block (run s es) = execute_block s"
  by (induction es arbitrary: s; simp add: process_config)+

section \<open>A successful login after failures\<close>

text \<open>
  C3. On every successful login the engine takes the length of the address's deque of
  failed attempts as it is stored, without pruning it: the deque is the same list
  afterwards (created empty if the address had none), and
  \<open>successful_after_failures\<close> is appended to the alert log exactly when that length
  is at least \<open>max(1, failed_threshold // 2)\<close>, with the length as \<open>recent_failed\<close>.
  Neither the time of the login nor the window enters the condition.
\<close>

theorem success_after_failures_unpruned:
  "alerts (process s c (SuccessfulLogin u a)) =
     alerts s
     @ (if max 1 (failed_threshold s div 2) \<le> int (length (dd_get (failed s) [] a))
        then [after_failures_alert (alert_ts c) u a (length (dd_get (failed s) [] a))]
        else [])
     @ (if a \<notin> dd_get (known_user_ips s) {} u then [new_ip_alert (alert_ts2 c) u a] else [])
   \<and> dd_get (failed (process s c (SuccessfulLogin u a))) [] a = dd_get (failed s) [] a
   \<and> kind (new_ip_alert (alert_ts2 c) u a) \<noteq> ''successful_after_failures''"
  by (simp add: record_success_alerts record_success_failed dd_get_touch new_ip_alert_def)

text \<open>
  An entry far older than the window still counts: one failure at time 0, then a
  successful login a million seconds later with a window of 60 seconds.
\<close>

lemma success_counts_stale_entry:
  "alerts (run (SSHEdr 2 60 8 True False)
     [(\<lparr> now = 0, alert_ts = 0, alert_ts2 = 0 \<rparr>, FailedLogin ''203.0.113.5''),
      (\<lparr> now = 1000000000000, alert_ts = 1000000000001, alert_ts2 = 1000000000002 \<rparr>,
       SuccessfulLogin ''alice'' ''203.0.113.5'')])
   = [after_failures_alert 1000000000001 ''alice'' ''203.0.113.5'' 1,
      new_ip_alert 1000000000002 ''alice'' ''203.0.113.5'']"
  by (simp add: SSHEdr_def record_failed_def record_success_alerts dd_get_def)

section \<open>A successful login never blocks\<close>

text \<open>
  C10. Processing a successful login issues no block request, whatever the state and the
  configuration: the commands printed and the commands run are those of before.
\<close>

theorem success_never_blocks:
  "block_requests (effects (process s c (SuccessfulLogin u a))) = block_requests (effects s) \<and>
   check_calls (effects (process s c (SuccessfulLogin u a))) = check_calls (effects s)"
  by (simp add: record_success_def do_alert_def Let_def block_requests_append check_calls_append)

section \<open>The two windows are independent\<close>

text \<open>
  C6. An invalid-user attempt changes \<open>invalid_user\<close> at its own address only, by
  appending the arrival time and pruning, compares the resulting length with
  \<open>invalid_threshold\<close>, and leaves \<open>failed\<close> as it was. A failed login or a PAM
  authentication failure changes \<open>failed\<close> at its own address only and leaves
  \<open>invalid_user\<close> as it was.
\<close>

theorem independent_windows:
  "failed (process s c (InvalidUserAttempt a u)) = failed s
   \<and> invalid_user (process s c (InvalidUserAttempt a u)) =
       (invalid_user s)(a \<mapsto> prune (dd_get (invalid_user s) [] a @ [now c]) (now c - window s))
   \<and> alerts (process s c (InvalidUserAttempt a u)) =
       alerts s
       @ (if invalid_threshold s \<le> int (length (prune (dd_get (invalid_user s) [] a @ [now c]) (now c - window s)))
          then [invalid_user_alert (alert_ts c) a u
                  (length (prune (dd_get (invalid_user s) [] a @ [now c]) (now c - window s)))]
          else [])
   \<and> invalid_user (process s c (FailedLogin a)) = invalid_user s
   \<and> invalid_user (process s c (AuthFailure a)) = invalid_user s
   \<and> failed (process s c (FailedLogin a)) =
       (failed s)(a \<mapsto> prune (dd_get (failed s) [] a @ [now c]) (now c - window s))
   \<and> failed (process s c (AuthFailure a)) =
       (failed s)(a \<mapsto> prune (dd_get (failed s) [] a @ [now c]) (now c - window s))"
  by (simp add: record_failed_frame record_invalid_user_frame record_failed_failed
      record_invalid_user_invalid_user record_invalid_user_alerts dd_get_def)

section \<open>Creation of the window state\<close>

lemma process_dom_failed: "dom (failed (process s c e)) = dom (failed s) \<union> touches_failed e"
  by (cases e) (auto simp: record_failed_failed record_invalid_user_frame record_success_failed dd_touch_def)

lemma process_dom_invalid: "dom (invalid_user (process s c e)) = dom (invalid_user s) \<union> touches_invalid e"
  by (cases e) (auto simp: record_failed_frame record_invalid_user_invalid_user record_success_frame)

lemma run_dom_failed: "dom (failed (run s es)) = dom (failed s) \<union> \<Union> (set (map (\<lambda>ce. touches_failed (snd ce)) es))"
  by (induction es arbitrary: s) (auto simp: process_dom_failed)

lemma run_dom_invalid: "dom (invalid_user (run s es)) = dom (invalid_user s) \<union> \<Union> (set (map (\<lambda>ce. touches_invalid (snd ce)) es))"
  by (induction es arbitrary: s) (auto simp: process_dom_invalid)

text \<open>
  C7, as stated, fails: a successful login from an address that has no entry in
  \<open>failed\<close> creates one, because \<open>record_success\<close> reads \<open>self.failed[ip]\<close> of a
  \<open>defaultdict\<close>.
\<close>

theorem window_state_created_by_success_counterexample:
  "failed (SSHEdr 5 60 8 True False) ''198.51.100.7'' = None \<and>
   failed (process (SSHEdr 5 60 8 True False) \<lparr> now = 0, alert_ts = 0, alert_ts2 = 0 \<rparr>
             (SuccessfulLogin ''alice'' ''198.51.100.7'')) ''198.51.100.7'' = Some []"
  by (simp add: SSHEdr_def record_success_failed dd_touch_def dd_get_def)

text \<open>
  C7, amended. The entry of an address in \<open>failed\<close> is created by the first failed
  login, PAM authentication failure or successful login from that address, and the entry
  in \<open>invalid_user\<close> by the first invalid-user attempt from it; nothing else creates an
  entry, both maps are empty at construction, and no event removes a key.
\<close>

theorem window_state_lifecycle:
  "dom (failed (process s c e)) = dom (failed s) \<union> touches_failed e \<and>
   dom (invalid_user (process s c e)) = dom (invalid_user s) \<union> touches_invalid e \<and>
   dom (failed (run s es)) = dom (failed s) \<union> \<Union> (set (map (\<lambda>ce. touches_failed (snd ce)) es)) \<and>
   dom (invalid_user (run s es)) = dom (invalid_user s) \<union> \<Union> (set (map (\<lambda>ce. touches_invalid (snd ce)) es)) \<and>
   dom (failed (SSHEdr ft ws it dr eb)) = {} \<and> dom (invalid_user (SSHEdr ft ws it dr eb)) = {}"
  by (simp add: process_dom_failed process_dom_invalid run_dom_failed run_dom_invalid SSHEdr_def)

section \<open>Dry run\<close>

lemma record_success_block_requests:
  "block_requests (effects (record_success s c u a)) = block_requests (effects s)"
  "check_calls (effects (record_success s c u a)) = check_calls (effects s)"
  by (simp_all add: record_success_def do_alert_def Let_def block_requests_append check_calls_append)

lemma process_dry_run:
  "dry_run s \<Longrightarrow> block_requests (effects (process s c e)) = block_requests (effects s)"
  "dry_run s \<Longrightarrow> check_calls (effects (process s c e)) = check_calls (effects s)"
  by (cases e; simp add: record_failed_block_requests record_invalid_user_block_requests
        record_success_block_requests record_failed_check_calls record_invalid_user_check_calls)+

lemma run_dry_run:
  "dry_run s \<Longrightarrow> block_requests (effects (run s es)) = block_requests (effects s)"
  "dry_run s \<Longrightarrow> check_calls (effects (run s es)) = check_calls (effects s)"
  by (induction es arbitrary: s; simp add: process_dry_run process_config)+

text \<open>
  C2. With \<open>dry_run\<close> no stream of events ever issues a block request (nor runs a
  command). Without it a failed login, a PAM authentication failure or an invalid-user
  attempt issues exactly one block request, for its own address, when the length of its
  deque after pruning has reached the threshold, and none otherwise.
\<close>

theorem dry_run_gating:
  "(dry_run s \<longrightarrow>
      block_requests (effects (run s es)) = block_requests (effects s) \<and>
      check_calls (effects (run s es)) = check_calls (effects s))
   \<and> (\<not> dry_run s \<longrightarrow>
      block_requests (effects (process s c (FailedLogin a))) =
        block_requests (effects s)
        @ (if failed_threshold s \<le> int (length (dd_get (failed (process s c (FailedLogin a))) [] a))
           then [iptables_cmd a] else []) \<and>
      block_requests (effects (process s c (AuthFailure a))) =
        block_requests (effects s)
        @ (if failed_threshold s \<le> int (length (dd_get (failed (process s c (AuthFailure a))) [] a))
           then [iptables_cmd a] else []) \<and>
      block_requests (effects (process s c (InvalidUserAttempt a u))) =
        block_requests (effects s)
        @ (if invalid_threshold s \<le> int (length (dd_get (invalid_user (process s c (InvalidUserAttempt a u))) [] a))
           then [iptables_cmd a] else []))"
  by (simp add: run_dry_run record_failed_block_requests record_invalid_user_block_requests)

theorem dry_run_gating_witness:
  "dry_run (SSHEdr 1 60 1 True True) \<and> \<not> dry_run (SSHEdr 1 60 1 False False)
   \<and> \<not> dry_run (SSHEdr 2 60 1 False False)
   \<and> block_requests (effects (run (SSHEdr 1 60 1 True True)
       [(\<lparr> now = 0, alert_ts = 1, alert_ts2 = 2 \<rparr>, FailedLogin ''203.0.113.5''),
        (\<lparr> now = 3, alert_ts = 4, alert_ts2 = 5 \<rparr>, InvalidUserAttempt ''203.0.113.5'' ''root'')])) = []
   \<and> block_requests (effects (process (SSHEdr 1 60 1 False False) \<lparr> now = 0, alert_ts = 1, alert_ts2 = 2 \<rparr>
       (FailedLogin ''203.0.113.5''))) = [iptables_cmd ''203.0.113.5'']
   \<and> block_requests (effects (process (SSHEdr 2 60 1 False False) \<lparr> now = 0, alert_ts = 1, alert_ts2 = 2 \<rparr>
       (FailedLogin ''203.0.113.5''))) = []"
  using dry_run_gating [of "SSHEdr 1 60 1 True True"
          "[(\<lparr> now = 0, alert_ts = 1, alert_ts2 = 2 \<rparr>, FailedLogin ''203.0.113.5''),
            (\<lparr> now = 3, alert_ts = 4, alert_ts2 = 5 \<rparr>, InvalidUserAttempt ''203.0.113.5'' ''root'')]"]
        dry_run_gating [of "SSHEdr 1 60 1 False False" "[]" "\<lparr> now = 0, alert_ts = 1, alert_ts2 = 2 \<rparr>" "''203.0.113.5''"]
        dry_run_gating [of "SSHEdr 2 60 1 False False" "[]" "\<lparr> now = 0, alert_ts = 1, alert_ts2 = 2 \<rparr>" "''203.0.113.5''"]
  by (simp add: SSHEdr_def record_failed_failed dd_get_def)

section \<open>The success history\<close>

lemma append_maxlen_drop:
  "append_maxlen 50 (drop (length xs - 50) xs) x = drop (length (xs @ [x]) - 50) (xs @ [x])"
proof (cases "length xs < 50")
  case True
  then show ?thesis by (simp add: append_maxlen_def)
next
  case False
  then have n: "Suc (length xs - 50) = Suc (length xs) - 50"
    by arith
  have "tl (drop (length xs - 50) xs) = drop (Suc (length xs - 50)) xs"
    by (simp add: tl_drop drop_Suc)
  then have "tl (drop (length xs - 50) xs) = drop (Suc (length xs) - 50) xs"
    by (simp only: n)
  with False show ?thesis by (simp add: append_maxlen_def)
qed

lemma process_history:
  "dd_get (successful_logins (process s c e)) [] u =
     (case success_entry u (c, e) of
        [] \<Rightarrow> dd_get (successful_logins s) [] u
      | x # xs \<Rightarrow> append_maxlen 50 (dd_get (successful_logins s) [] u) x)"
  by (cases e) (simp_all add: record_failed_frame record_invalid_user_frame record_success_history dd_get_def)

lemma run_history:
  "dd_get (successful_logins (run (SSHEdr ft ws it dr eb) es)) [] u =
     drop (length (success_entries u es) - 50) (success_entries u es)"
proof (induction es rule: rev_induct)
  case Nil
  show ?case by (simp add: SSHEdr_def dd_get_def success_entries_def)
next
  case (snoc ce es)
  obtain c e where ce: "ce = (c, e)" by (cases ce)
  show ?case
  proof (cases "success_entry u (c, e)")
    case Nil
    then show ?thesis using snoc by (simp add: run_snoc ce process_history success_entries_def)
  next
    case (Cons x xs)
    then have one: "success_entry u (c, e) = [x]"
      by (cases e) (auto split: if_splits)
    have "dd_get (successful_logins (run (SSHEdr ft ws it dr eb) (es @ [ce]))) [] u =
            append_maxlen 50 (drop (length (success_entries u es) - 50) (success_entries u es)) x"
      using snoc one by (simp add: run_snoc ce process_history)
    also have "\<dots> = drop (length (success_entries u es @ [x]) - 50) (success_entries u es @ [x])"
      by (rule append_maxlen_drop)
    finally show ?thesis using one by (simp add: success_entries_def ce)
  qed
qed

lemma process_history_irrelevant:
  "process (s\<lparr> successful_logins := h \<rparr>) c e =
     (process s c e)\<lparr> successful_logins := successful_logins (process (s\<lparr> successful_logins := h \<rparr>) c e) \<rparr>"
  by (cases e) (simp_all add: record_failed_def record_invalid_user_def record_success_def
        do_alert_def block_ip_def Let_def)

lemma run_history_irrelevant:
  "run (s\<lparr> successful_logins := h \<rparr>) es =
     (run s es)\<lparr> successful_logins := successful_logins (run (s\<lparr> successful_logins := h \<rparr>) es) \<rparr>"
proof (induction es arbitrary: s h)
  case Nil
  show ?case by simp
next
  case (Cons ce es)
  have "run (s\<lparr> successful_logins := h \<rparr>) (ce # es) =
          run ((process s (fst ce) (snd ce))
                 \<lparr> successful_logins := successful_logins (process (s\<lparr> successful_logins := h \<rparr>) (fst ce) (snd ce)) \<rparr>) es"
    using process_history_irrelevant [where s = s and h = h and c = "fst ce" and e = "snd ce"] by simp
  then show ?case using Cons.IH [where s = "process s (fst ce) (snd ce)"] by simp
qed

text \<open>
  C9. The success history of a user holds the last 50 entries that the stream appended
  for that user, oldest first, so never more than 50; a successful login into a full
  history drops the oldest entry and appends the new one at the end. The history is
  never read: replacing it by any other leaves the alerts, the effects and the other
  maps of every later run unchanged.
\<close>

theorem success_history_bounded:
  "dd_get (successful_logins (run (SSHEdr ft ws it dr eb) es)) [] u =
     drop (length (success_entries u es) - 50) (success_entries u es)
   \<and> length (dd_get (successful_logins (run (SSHEdr ft ws it dr eb) es)) [] u) \<le> 50
   \<and> dd_get (successful_logins (process (run (SSHEdr ft ws it dr eb) es) c (SuccessfulLogin u a))) [] u =
       (if length (dd_get (successful_logins (run (SSHEdr ft ws it dr eb) es)) [] u) = 50
        then tl (dd_get (successful_logins (run (SSHEdr ft ws it dr eb) es)) [] u) @ [(a, now c)]
        else dd_get (successful_logins (run (SSHEdr ft ws it dr eb) es)) [] u @ [(a, now c)])
   \<and> alerts (run (s\<lparr> successful_logins := h \<rparr>) fs) = alerts (run s fs)
   \<and> effects (run (s\<lparr> successful_logins := h \<rparr>) fs) = effects (run s fs)
   \<and> failed (run (s\<lparr> successful_logins := h \<rparr>) fs) = failed (run s fs)
   \<and> invalid_user (run (s\<lparr> successful_logins := h \<rparr>) fs) = invalid_user (run s fs)
   \<and> known_user_ips (run (s\<lparr> successful_logins := h \<rparr>) fs) = known_user_ips (run s fs)"
proof -
  have bound: "length (dd_get (successful_logins (run (SSHEdr ft ws it dr eb) es)) [] u) \<le> 50"
    by (simp add: run_history)
  have step: "dd_get (successful_logins (process (run (SSHEdr ft ws it dr eb) es) c (SuccessfulLogin u a))) [] u =
       (if length (dd_get (successful_logins (run (SSHEdr ft ws it dr eb) es)) [] u) = 50
        then tl (dd_get (successful_logins (run (SSHEdr ft ws it dr eb) es)) [] u) @ [(a, now c)]
        else dd_get (successful_logins (run (SSHEdr ft ws it dr eb) es)) [] u @ [(a, now c)])"
    using bound by (simp add: process_history append_maxlen_def del: process.simps)
  have irr: "run (s\<lparr> successful_logins := h \<rparr>) fs =
     (run s fs)\<lparr> successful_logins := successful_logins (run (s\<lparr> successful_logins := h \<rparr>) fs) \<rparr>"
    by (rule run_history_irrelevant)
  have a: "alerts (run (s\<lparr> successful_logins := h \<rparr>) fs) = alerts (run s fs)"
    by (subst irr) simp
  have b: "effects (run (s\<lparr> successful_logins := h \<rparr>) fs) = effects (run s fs)"
    by (subst irr) simp
  have c: "failed (run (s\<lparr> successful_logins := h \<rparr>) fs) = failed (run s fs)"
    by (subst irr) simp
  have d: "invalid_user (run (s\<lparr> successful_logins := h \<rparr>) fs) = invalid_user (run s fs)"
    by (subst irr) simp
  have e: "known_user_ips (run (s\<lparr> successful_logins := h \<rparr>) fs) = known_user_ips (run s fs)"
    by (subst irr) simp
  show ?thesis using run_history bound step a b c d e by blast
qed

section \<open>A login from a new address\<close>

lemma process_known:
  "a \<in> dd_get (known_user_ips (process s c e)) {} u \<longleftrightarrow>
     a \<in> dd_get (known_user_ips s) {} u \<or> e = SuccessfulLogin u a"
  by (cases e) (auto simp: record_failed_frame record_invalid_user_frame record_success_known dd_get_def
       split: option.splits)

lemma run_known:
  "a \<in> dd_get (known_user_ips (run s es)) {} u \<longleftrightarrow>
     a \<in> dd_get (known_user_ips s) {} u \<or> SuccessfulLogin u a \<in> snd ` set es"
  by (induction es arbitrary: s) (auto simp: process_known)

lemma new_ip_alerts_append: "new_ip_alerts u a (xs @ ys) = new_ip_alerts u a xs @ new_ip_alerts u a ys"
  by (simp add: new_ip_alerts_def)

lemma process_new_ip_alerts:
  "new_ip_alerts u a (alerts (process s c e)) =
     new_ip_alerts u a (alerts s)
     @ (if e = SuccessfulLogin u a \<and> a \<notin> dd_get (known_user_ips s) {} u
        then [new_ip_alert (alert_ts2 c) u a] else [])"
  by (cases e) (auto simp: record_failed_alerts record_invalid_user_alerts record_success_alerts
       new_ip_alerts_def new_ip_alert_def after_failures_alert_def brute_force_alert_def invalid_user_alert_def)

text \<open>
  C4. In a run from a new engine, a successful login of a user from an address emits
  \<open>login_from_new_ip\<close> for that pair exactly when no earlier event of the run was a
  successful login of the same pair; so the alert log holds one such alert if the pair
  has logged in and none otherwise, however many logins followed.
\<close>

theorem new_ip_alert_once:
  "new_ip_alerts u a (alerts (run (SSHEdr ft ws it dr eb) (es @ [(c, SuccessfulLogin u a)]))) =
     new_ip_alerts u a (alerts (run (SSHEdr ft ws it dr eb) es))
     @ (if SuccessfulLogin u a \<in> snd ` set es then [] else [new_ip_alert (alert_ts2 c) u a])
   \<and> length (new_ip_alerts u a (alerts (run (SSHEdr ft ws it dr eb) es))) =
       (if SuccessfulLogin u a \<in> snd ` set es then 1 else 0)"
proof -
  have k: "a \<in> dd_get (known_user_ips (run (SSHEdr ft ws it dr eb) fs)) {} u \<longleftrightarrow>
             SuccessfulLogin u a \<in> snd ` set fs" for fs
    by (simp add: run_known) (simp add: SSHEdr_def dd_get_def)
  have n: "length (new_ip_alerts u a (alerts (run (SSHEdr ft ws it dr eb) fs))) =
       (if SuccessfulLogin u a \<in> snd ` set fs then 1 else 0)" for fs
  proof (induction fs rule: rev_induct)
    case Nil
    show ?case by (simp add: SSHEdr_def new_ip_alerts_def)
  next
    case (snoc ce fs)
    then show ?case by (cases ce) (auto simp: run_snoc process_new_ip_alerts k simp del: process.simps)
  qed
  show ?thesis using n [of es] by (simp add: run_snoc process_new_ip_alerts k del: process.simps)
qed

section \<open>Pruning\<close>

lemma prune_sorted: "sorted dq \<Longrightarrow> prune dq cu = filter (\<lambda>x. cu \<le> x) dq"
proof (induction dq)
  case Nil
  show ?case by simp
next
  case (Cons x dq)
  show ?case
  proof (cases "x < cu")
    case True
    with Cons show ?thesis by simp
  next
    case False
    with Cons.prems have "\<forall>y\<in>set (x # dq). cu \<le> y" by auto
    then have "filter (\<lambda>y. cu \<le> y) (x # dq) = x # dq"
      by (simp only: filter_True)
    with False show ?thesis by simp
  qed
qed

lemma prune_stale_prefix: "list_all (\<lambda>x. x < cu) xs \<Longrightarrow> prune (xs @ ys) cu = prune ys cu"
  by (induction xs) simp_all

lemma prune_fresh_head: "cu \<le> x \<Longrightarrow> prune (x # xs) cu = x # xs"
  by simp

lemma times_append: "times (es @ fs) = times es @ times fs"
  by (simp add: times_def)

lemma failed_times_snoc:
  "failed_times a (es @ [ce]) =
     failed_times a es @ (if is_failed_for a (snd ce) then [now (fst ce)] else [])"
  by (simp add: failed_times_def times_def)

lemma invalid_times_snoc:
  "invalid_times a (es @ [ce]) =
     invalid_times a es @ (if is_invalid_for a (snd ce) then [now (fst ce)] else [])"
  by (simp add: invalid_times_def times_def)

lemma sorted_failed_times: "sorted (times es) \<Longrightarrow> sorted (failed_times a es)"
  unfolding failed_times_def times_def by (rule sorted_filter)

lemma sorted_invalid_times: "sorted (times es) \<Longrightarrow> sorted (invalid_times a es)"
  unfolding invalid_times_def times_def by (rule sorted_filter)

lemma set_failed_times: "set (failed_times a es) \<subseteq> set (times es)"
  by (auto simp: failed_times_def times_def)

lemma set_invalid_times: "set (invalid_times a es) \<subseteq> set (times es)"
  by (auto simp: invalid_times_def times_def)

lemma process_failed_deque:
  "dd_get (failed (process s c e)) [] a =
     (if is_failed_for a e
      then prune (dd_get (failed s) [] a @ [now c]) (now c - window s)
      else dd_get (failed s) [] a)"
  by (cases e) (simp_all add: record_failed_failed record_invalid_user_frame record_success_failed
        dd_get_touch, simp_all add: dd_get_def)

lemma process_invalid_deque:
  "dd_get (invalid_user (process s c e)) [] a =
     (if is_invalid_for a e
      then prune (dd_get (invalid_user s) [] a @ [now c]) (now c - window s)
      else dd_get (invalid_user s) [] a)"
  by (cases e) (simp_all add: record_failed_frame record_invalid_user_invalid_user record_success_frame,
        simp_all add: dd_get_def)

lemma recent_append: "recent w t (xs @ ys) = recent w t xs @ recent w t ys"
  by (simp add: recent_def)

lemma recent_recent: "t' \<le> t \<Longrightarrow> recent w t (recent w t' xs) = recent w t xs"
  by (auto simp: recent_def intro: filter_cong)

lemma sorted_recent: "sorted xs \<Longrightarrow> sorted (recent w t xs)"
  by (simp add: recent_def sorted_wrt_filter)

lemma prune_snoc_sorted:
  assumes "sorted xs" and "\<forall>x\<in>set xs. x \<le> t"
  shows "prune (xs @ [t]) (t - w) = recent w t (xs @ [t])"
proof -
  from assms have "sorted (xs @ [t])" by (simp add: sorted_append)
  then show ?thesis by (simp only: prune_sorted recent_def)
qed

lemma window_deque_snoc:
  assumes "sorted (xs @ [t])"
  shows "prune (window_deque w xs @ [t]) (t - w) = window_deque w (xs @ [t])"
proof (cases "xs = []")
  case True
  then show ?thesis
    using prune_snoc_sorted [of "[]" t w] by (simp add: window_deque_def)
next
  case False
  from assms have s: "sorted xs" and le: "\<forall>x\<in>set xs. x \<le> t"
    by (simp_all add: sorted_append)
  from False le have l: "last xs \<le> t" by simp
  have s': "sorted (recent w (last xs) xs)"
    using s by (rule sorted_recent)
  have le': "\<forall>x\<in>set (recent w (last xs) xs). x \<le> t"
    using le by (simp add: recent_def)
  have "prune (recent w (last xs) xs @ [t]) (t - w) = recent w t (recent w (last xs) xs @ [t])"
    using s' le' by (rule prune_snoc_sorted)
  also have "\<dots> = recent w t (xs @ [t])"
    using l by (simp add: recent_append recent_recent)
  finally show ?thesis using False by (simp add: window_deque_def)
qed

lemma run_failed_deque:
  "sorted (times es) \<Longrightarrow>
   dd_get (failed (run (SSHEdr ft ws it dr eb) es)) [] a =
     window_deque (window (SSHEdr ft ws it dr eb)) (failed_times a es)"
proof (induction es rule: rev_induct)
  case Nil
  show ?case by (simp add: SSHEdr_def dd_get_def window_deque_def failed_times_def times_def)
next
  case (snoc ce es)
  from snoc.prems have s: "sorted (times es)"
    by (simp add: times_append sorted_append)
  show ?case
  proof (cases "is_failed_for a (snd ce)")
    case True
    from snoc.prems have "sorted (failed_times a (es @ [ce]))" by (rule sorted_failed_times)
    with True have "sorted (failed_times a es @ [now (fst ce)])" by (simp add: failed_times_snoc)
    then show ?thesis
      using True snoc.IH [OF s]
      by (simp add: run_snoc process_failed_deque run_config failed_times_snoc window_deque_snoc)
  next
    case False
    then show ?thesis using snoc.IH [OF s]
      by (simp add: run_snoc process_failed_deque failed_times_snoc)
  qed
qed

lemma run_invalid_deque:
  "sorted (times es) \<Longrightarrow>
   dd_get (invalid_user (run (SSHEdr ft ws it dr eb) es)) [] a =
     window_deque (window (SSHEdr ft ws it dr eb)) (invalid_times a es)"
proof (induction es rule: rev_induct)
  case Nil
  show ?case by (simp add: SSHEdr_def dd_get_def window_deque_def invalid_times_def times_def)
next
  case (snoc ce es)
  from snoc.prems have s: "sorted (times es)"
    by (simp add: times_append sorted_append)
  show ?case
  proof (cases "is_invalid_for a (snd ce)")
    case True
    from snoc.prems have "sorted (invalid_times a (es @ [ce]))" by (rule sorted_invalid_times)
    with True have "sorted (invalid_times a es @ [now (fst ce)])" by (simp add: invalid_times_snoc)
    then show ?thesis
      using True snoc.IH [OF s]
      by (simp add: run_snoc process_invalid_deque run_config invalid_times_snoc window_deque_snoc)
  next
    case False
    then show ?thesis using snoc.IH [OF s]
      by (simp add: run_snoc process_invalid_deque invalid_times_snoc)
  qed
qed

lemma sorted_window_deque: "sorted xs \<Longrightarrow> sorted (window_deque w xs)"
  by (simp add: window_deque_def sorted_recent)

lemma window_deque_bound: "list_all (\<lambda>x. t - w \<le> x) (recent w t xs)"
  by (simp add: recent_def list_all_iff)

lemma window_deque_recent:
  assumes "sorted (xs @ [t])"
  shows "recent w t (window_deque w xs @ [t]) = window_deque w (xs @ [t])"
proof -
  from assms have "sorted xs" and "\<forall>x\<in>set xs. x \<le> t" by (simp_all add: sorted_append)
  then have "sorted (window_deque w xs)" and "\<forall>x\<in>set (window_deque w xs). x \<le> t"
    by (simp_all add: sorted_window_deque) (simp add: window_deque_def recent_def)
  then have "prune (window_deque w xs @ [t]) (t - w) = recent w t (window_deque w xs @ [t])"
    by (rule prune_snoc_sorted)
  with assms show ?thesis by (simp add: window_deque_snoc)
qed

lemma window_deque_snoc_eq: "window_deque w (xs @ [t]) = recent w t (xs @ [t])"
  by (simp add: window_deque_def)

text \<open>
  C8, as stated, fails: the arrival times are readings of the wall clock, and when the
  clock is set back between two events an older entry stands behind a newer one, where
  \<open>_prune\<close> does not reach it. With a window of one second and three failed logins
  from one address at readings 2 s, 0 s and 2 s after some instant, the deque after the
  third prune still holds the second entry, which is before the cutoff, and is not ordered.
\<close>

theorem prune_keeps_window_counterexample:
  "run_or_raise (SSHEdr 5 1 8 True False)
     [(\<lparr> now = 63929304002000000, alert_ts = 63929304002000001, alert_ts2 = 63929304002000002 \<rparr>, FailedLogin ''203.0.113.5''),
      (\<lparr> now = 63929304000000000, alert_ts = 63929304000000001, alert_ts2 = 63929304000000002 \<rparr>, FailedLogin ''203.0.113.5''),
      (\<lparr> now = 63929304002000000, alert_ts = 63929304002000001, alert_ts2 = 63929304002000002 \<rparr>, FailedLogin ''203.0.113.5'')]
     = Returns (run (SSHEdr 5 1 8 True False)
     [(\<lparr> now = 63929304002000000, alert_ts = 63929304002000001, alert_ts2 = 63929304002000002 \<rparr>, FailedLogin ''203.0.113.5''),
      (\<lparr> now = 63929304000000000, alert_ts = 63929304000000001, alert_ts2 = 63929304000000002 \<rparr>, FailedLogin ''203.0.113.5''),
      (\<lparr> now = 63929304002000000, alert_ts = 63929304002000001, alert_ts2 = 63929304002000002 \<rparr>, FailedLogin ''203.0.113.5'')])
   \<and> dd_get (failed (run (SSHEdr 5 1 8 True False)
     [(\<lparr> now = 63929304002000000, alert_ts = 63929304002000001, alert_ts2 = 63929304002000002 \<rparr>, FailedLogin ''203.0.113.5''),
      (\<lparr> now = 63929304000000000, alert_ts = 63929304000000001, alert_ts2 = 63929304000000002 \<rparr>, FailedLogin ''203.0.113.5''),
      (\<lparr> now = 63929304002000000, alert_ts = 63929304002000001, alert_ts2 = 63929304002000002 \<rparr>, FailedLogin ''203.0.113.5'')])) [] ''203.0.113.5''
     = [63929304002000000, 63929304000000000, 63929304002000000]
   \<and> \<not> sorted (dd_get (failed (run (SSHEdr 5 1 8 True False)
     [(\<lparr> now = 63929304002000000, alert_ts = 63929304002000001, alert_ts2 = 63929304002000002 \<rparr>, FailedLogin ''203.0.113.5''),
      (\<lparr> now = 63929304000000000, alert_ts = 63929304000000001, alert_ts2 = 63929304000000002 \<rparr>, FailedLogin ''203.0.113.5''),
      (\<lparr> now = 63929304002000000, alert_ts = 63929304002000001, alert_ts2 = 63929304002000002 \<rparr>, FailedLogin ''203.0.113.5'')])) [] ''203.0.113.5'')
   \<and> \<not> list_all (\<lambda>x. 63929304002000000 - 1 * 1000000 \<le> x)
        (dd_get (failed (run (SSHEdr 5 1 8 True False)
     [(\<lparr> now = 63929304002000000, alert_ts = 63929304002000001, alert_ts2 = 63929304002000002 \<rparr>, FailedLogin ''203.0.113.5''),
      (\<lparr> now = 63929304000000000, alert_ts = 63929304000000001, alert_ts2 = 63929304000000002 \<rparr>, FailedLogin ''203.0.113.5''),
      (\<lparr> now = 63929304002000000, alert_ts = 63929304002000001, alert_ts2 = 63929304002000002 \<rparr>, FailedLogin ''203.0.113.5'')])) [] ''203.0.113.5'')"
  by (simp add: record_failed_failed record_failed_frame dd_get_def SSHEdr_def
        is_datetime_def record_failed_or_raise_def)

text \<open>
  C8, amended. When the arrival times of a stream never decrease, the prune of a
  failed-login (or PAM failure) event leaves, of the deque of its address with the arrival
  time appended, exactly the entries \<open>x\<close> with \<open>now - window \<le> x\<close>, an entry equal to
  the cutoff included; the deque is ordered oldest first, and every entry is at least
  \<open>now - window\<close>. The same holds for an invalid-user event and \<open>invalid_user\<close>.
\<close>

theorem prune_keeps_window:
  assumes "sorted (times (es @ [(c, e)]))"
  shows "(is_failed_for a e \<longrightarrow>
            dd_get (failed (run (SSHEdr ft ws it dr eb) (es @ [(c, e)]))) [] a =
              recent (ws * 1000000) (now c) (dd_get (failed (run (SSHEdr ft ws it dr eb) es)) [] a @ [now c])
          \<and> sorted (dd_get (failed (run (SSHEdr ft ws it dr eb) (es @ [(c, e)]))) [] a)
          \<and> list_all (\<lambda>x. now c - ws * 1000000 \<le> x)
               (dd_get (failed (run (SSHEdr ft ws it dr eb) (es @ [(c, e)]))) [] a))
       \<and> (is_invalid_for a e \<longrightarrow>
            dd_get (invalid_user (run (SSHEdr ft ws it dr eb) (es @ [(c, e)]))) [] a =
              recent (ws * 1000000) (now c) (dd_get (invalid_user (run (SSHEdr ft ws it dr eb) es)) [] a @ [now c])
          \<and> sorted (dd_get (invalid_user (run (SSHEdr ft ws it dr eb) (es @ [(c, e)]))) [] a)
          \<and> list_all (\<lambda>x. now c - ws * 1000000 \<le> x)
               (dd_get (invalid_user (run (SSHEdr ft ws it dr eb) (es @ [(c, e)]))) [] a))"
proof -
  have w: "window (SSHEdr ft ws it dr eb) = ws * 1000000" by (simp add: SSHEdr_def)
  from assms have s: "sorted (times es)" by (simp add: times_append sorted_append)
  have f: "?thesis" if fa: "is_failed_for a e" "\<not> is_invalid_for a e"
  proof -
    from assms have "sorted (failed_times a (es @ [(c, e)]))" by (rule sorted_failed_times)
    with fa have so: "sorted (failed_times a es @ [now c])" by (simp add: failed_times_snoc)
    have new: "dd_get (failed (run (SSHEdr ft ws it dr eb) (es @ [(c, e)]))) [] a =
                 recent (ws * 1000000) (now c) (failed_times a es @ [now c])"
      using fa run_failed_deque [OF assms, of ft ws it dr eb a]
      by (simp add: w failed_times_snoc window_deque_snoc_eq)
    have old: "dd_get (failed (run (SSHEdr ft ws it dr eb) es)) [] a =
                 window_deque (ws * 1000000) (failed_times a es)"
      using run_failed_deque [OF s, of ft ws it dr eb a] by (simp add: w)
    have "recent (ws * 1000000) (now c) (window_deque (ws * 1000000) (failed_times a es) @ [now c]) =
            recent (ws * 1000000) (now c) (failed_times a es @ [now c])"
      using so by (simp only: window_deque_recent window_deque_snoc_eq)
    then show ?thesis
      using fa so by (simp only: new old sorted_recent window_deque_bound simp_thms)
  qed
  have i: "?thesis" if fa: "is_invalid_for a e" "\<not> is_failed_for a e"
  proof -
    from assms have "sorted (invalid_times a (es @ [(c, e)]))" by (rule sorted_invalid_times)
    with fa have so: "sorted (invalid_times a es @ [now c])" by (simp add: invalid_times_snoc)
    have new: "dd_get (invalid_user (run (SSHEdr ft ws it dr eb) (es @ [(c, e)]))) [] a =
                 recent (ws * 1000000) (now c) (invalid_times a es @ [now c])"
      using fa run_invalid_deque [OF assms, of ft ws it dr eb a]
      by (simp add: w invalid_times_snoc window_deque_snoc_eq)
    have old: "dd_get (invalid_user (run (SSHEdr ft ws it dr eb) es)) [] a =
                 window_deque (ws * 1000000) (invalid_times a es)"
      using run_invalid_deque [OF s, of ft ws it dr eb a] by (simp add: w)
    have "recent (ws * 1000000) (now c) (window_deque (ws * 1000000) (invalid_times a es) @ [now c]) =
            recent (ws * 1000000) (now c) (invalid_times a es @ [now c])"
      using so by (simp only: window_deque_recent window_deque_snoc_eq)
    then show ?thesis
      using fa so by (simp only: new old sorted_recent window_deque_bound simp_thms)
  qed
  have n: "?thesis" if "\<not> is_failed_for a e" "\<not> is_invalid_for a e"
    using that by simp
  have "\<not> (is_failed_for a e \<and> is_invalid_for a e)" by (cases e) simp_all
  with f i n show ?thesis by blast
qed

theorem prune_keeps_window_witness:
  "sorted (times [(\<lparr> now = 0, alert_ts = 1, alert_ts2 = 2 \<rparr>, FailedLogin ''203.0.113.5''),
                  (\<lparr> now = 60000000, alert_ts = 60000001, alert_ts2 = 60000002 \<rparr>, AuthFailure ''203.0.113.5'')])
   \<and> dd_get (failed (run (SSHEdr 5 60 8 True False)
        [(\<lparr> now = 0, alert_ts = 1, alert_ts2 = 2 \<rparr>, FailedLogin ''203.0.113.5''),
         (\<lparr> now = 60000000, alert_ts = 60000001, alert_ts2 = 60000002 \<rparr>, AuthFailure ''203.0.113.5'')]))
        [] ''203.0.113.5'' = [0, 60000000]
   \<and> sorted (times [(\<lparr> now = 0, alert_ts = 1, alert_ts2 = 2 \<rparr>, InvalidUserAttempt ''198.51.100.9'' ''root''),
                  (\<lparr> now = 60000001, alert_ts = 60000002, alert_ts2 = 60000003 \<rparr>, InvalidUserAttempt ''198.51.100.9'' ''root'')])
   \<and> dd_get (invalid_user (run (SSHEdr 5 60 8 True False)
        [(\<lparr> now = 0, alert_ts = 1, alert_ts2 = 2 \<rparr>, InvalidUserAttempt ''198.51.100.9'' ''root''),
         (\<lparr> now = 60000001, alert_ts = 60000002, alert_ts2 = 60000003 \<rparr>, InvalidUserAttempt ''198.51.100.9'' ''root'')]))
        [] ''198.51.100.9'' = [60000001]"
  using prune_keeps_window [of "[(\<lparr> now = 0, alert_ts = 1, alert_ts2 = 2 \<rparr>, FailedLogin ''203.0.113.5'')]"
          "\<lparr> now = 60000000, alert_ts = 60000001, alert_ts2 = 60000002 \<rparr>" "AuthFailure ''203.0.113.5''"
          "''203.0.113.5''" 5 60 8 True False]
        prune_keeps_window [of "[(\<lparr> now = 0, alert_ts = 1, alert_ts2 = 2 \<rparr>, InvalidUserAttempt ''198.51.100.9'' ''root'')]"
          "\<lparr> now = 60000001, alert_ts = 60000002, alert_ts2 = 60000003 \<rparr>" "InvalidUserAttempt ''198.51.100.9'' ''root''"
          "''198.51.100.9''" 5 60 8 True False]
  by (simp add: times_def SSHEdr_def recent_def record_failed_failed record_invalid_user_invalid_user dd_get_def)

text \<open>
  \<open>_prune\<close> stops at the first entry that is not before the cutoff. The order of the
  arrival times is what puts every older entry in front of it: on a deque that is not
  ordered, an entry before the cutoff behind a newer one stays.
\<close>

lemma prune_stops_at_fresh_head: "prune [100, 0, 100] 50 = [100, 0, 100]"
  by simp

section \<open>The brute-force rule\<close>

lemma run_failed_deque_burst:
  assumes "list_all (\<lambda>x. x < lo - window s) (dd_get (failed s) [] a)"
    and "list_all (\<lambda>t. lo \<le> t \<and> t \<le> lo + window s) (failed_times a es)"
  shows "dd_get (failed (run s es)) [] a =
           (if failed_times a es = [] then dd_get (failed s) [] a else failed_times a es)"
  using assms(2)
proof (induction es rule: rev_induct)
  case Nil
  show ?case by (simp add: failed_times_def times_def)
next
  case (snoc ce es)
  from snoc.prems have w: "list_all (\<lambda>t. lo \<le> t \<and> t \<le> lo + window s) (failed_times a es)"
    by (simp add: failed_times_snoc)
  note IH = snoc.IH [OF w]
  show ?case
  proof (cases "is_failed_for a (snd ce)")
    case False
    then show ?thesis using IH by (simp add: run_snoc process_failed_deque failed_times_snoc)
  next
    case True
    with snoc.prems have t: "lo \<le> now (fst ce)" "now (fst ce) \<le> lo + window s"
      by (simp_all add: failed_times_snoc)
    show ?thesis
    proof (cases "failed_times a es = []")
      case True
      have "list_all (\<lambda>x. x < now (fst ce) - window s) (dd_get (failed s) [] a)"
        using assms(1) t(1) by (auto simp: list_all_iff)
      then have "prune (dd_get (failed s) [] a @ [now (fst ce)]) (now (fst ce) - window s) =
                   prune [now (fst ce)] (now (fst ce) - window s)"
        by (rule prune_stale_prefix)
      also have "\<dots> = [now (fst ce)]" using t by simp
      finally show ?thesis
        using True \<open>is_failed_for a (snd ce)\<close> IH
        by (simp add: run_snoc process_failed_deque failed_times_snoc run_config)
    next
      case False
      then obtain x xs where xs: "failed_times a es = x # xs" by (cases "failed_times a es") auto
      with w have "lo \<le> x" by simp
      with t have "now (fst ce) - window s \<le> x" by simp
      then have "prune ((x # xs) @ [now (fst ce)]) (now (fst ce) - window s) = (x # xs) @ [now (fst ce)]"
        by simp
      then show ?thesis
        using xs \<open>is_failed_for a (snd ce)\<close> IH
        by (simp add: run_snoc process_failed_deque failed_times_snoc run_config)
    qed
  qed
qed

lemma process_failed_alerts:
  "is_failed_for a e \<Longrightarrow>
   alerts (process s c e) =
     alerts s
     @ (if failed_threshold s \<le> int (length (dd_get (failed (process s c e)) [] a))
        then [brute_force_alert (alert_ts c) a (length (dd_get (failed (process s c e)) [] a)) (window s)]
        else [])"
  by (cases e) (simp_all add: record_failed_alerts)

lemma brute_force_counts_append:
  "brute_force_counts a (xs @ ys) = brute_force_counts a xs @ brute_force_counts a ys"
  by (simp add: brute_force_counts_def)

lemma process_brute_force_counts:
  "brute_force_counts a (alerts (process s c e)) =
     brute_force_counts a (alerts s)
     @ (if is_failed_for a e \<and> failed_threshold s \<le> int (length (dd_get (failed (process s c e)) [] a))
        then [Some (JInt (int (length (dd_get (failed (process s c e)) [] a))))]
        else [])"
proof (cases e)
  case (FailedLogin b)
  then show ?thesis
    by (simp add: record_failed_alerts brute_force_counts_append)
       (simp add: brute_force_counts_def brute_force_alert_def)
next
  case (AuthFailure b)
  then show ?thesis
    by (simp add: record_failed_alerts brute_force_counts_append)
       (simp add: brute_force_counts_def brute_force_alert_def)
next
  case (InvalidUserAttempt b u)
  then show ?thesis
    by (simp add: record_invalid_user_alerts brute_force_counts_append)
       (simp add: brute_force_counts_def invalid_user_alert_def)
next
  case (SuccessfulLogin u b)
  then show ?thesis
    by (simp add: record_success_alerts brute_force_counts_append)
       (simp add: brute_force_counts_def after_failures_alert_def new_ip_alert_def)
qed

lemma run_brute_force_counts_burst:
  assumes "1 \<le> failed_threshold s"
    and "list_all (\<lambda>x. x < lo - window s) (dd_get (failed s) [] a)"
    and "list_all (\<lambda>t. lo \<le> t \<and> t \<le> lo + window s) (failed_times a es)"
  shows "brute_force_counts a (alerts (run s es)) =
           brute_force_counts a (alerts s)
           @ map (\<lambda>k. Some (JInt (int k))) [nat (failed_threshold s) ..< Suc (length (failed_times a es))]"
  using assms(3)
proof (induction es rule: rev_induct)
  case Nil
  show ?case using assms(1) by (simp add: failed_times_def times_def)
next
  case (snoc ce es)
  from snoc.prems have w: "list_all (\<lambda>t. lo \<le> t \<and> t \<le> lo + window s) (failed_times a es)"
    by (simp add: failed_times_snoc)
  note IH = snoc.IH [OF w]
  have dq: "dd_get (failed (run s (es @ [ce]))) [] a =
              (if failed_times a (es @ [ce]) = [] then dd_get (failed s) [] a else failed_times a (es @ [ce]))"
    using assms(2) snoc.prems by (rule run_failed_deque_burst)
  show ?case
  proof (cases "is_failed_for a (snd ce)")
    case False
    then show ?thesis using IH
      by (simp add: run_snoc process_brute_force_counts failed_times_snoc del: upt_Suc)
  next
    case True
    then have len: "length (dd_get (failed (process (run s es) (fst ce) (snd ce))) [] a) =
                      Suc (length (failed_times a es))"
      using dq by (simp add: run_snoc failed_times_snoc)
    have up: "[nat (failed_threshold s) ..< Suc (Suc (length (failed_times a es)))] =
               [nat (failed_threshold s) ..< Suc (length (failed_times a es))]
               @ (if failed_threshold s \<le> int (Suc (length (failed_times a es)))
                  then [Suc (length (failed_times a es))] else [])"
      using assms(1) by (auto simp: nat_le_iff)
    let ?n = "length (failed_times a es)"
    let ?f = "\<lambda>k. Some (JInt (int k))"
    have "brute_force_counts a (alerts (run s (es @ [ce]))) =
            brute_force_counts a (alerts (run s es))
            @ (if failed_threshold s \<le> int (Suc ?n) then [?f (Suc ?n)] else [])"
      using True by (simp only: run_snoc process_brute_force_counts len run_config simp_thms if_True)
    also have "\<dots> = brute_force_counts a (alerts s)
            @ (map ?f [nat (failed_threshold s) ..< Suc ?n]
               @ (if failed_threshold s \<le> int (Suc ?n) then [?f (Suc ?n)] else []))"
      by (simp only: IH append_assoc)
    also have "map ?f [nat (failed_threshold s) ..< Suc ?n]
               @ (if failed_threshold s \<le> int (Suc ?n) then [?f (Suc ?n)] else []) =
               map ?f [nat (failed_threshold s) ..< Suc (Suc ?n)]"
      by (simp only: up map_append) simp
    finally show ?thesis using True by (simp only: failed_times_snoc if_True length_append list.size) simp
  qed
qed

text \<open>
  The rule on the path without a raise: the burst inside one window, from any state whose
  entries for the address are stale, and the count under arrival times that never decrease.
\<close>

lemma brute_force_rule:
  "(is_failed_for a e \<and>
    list_all (\<lambda>x. x < lo - window s) (dd_get (failed s) [] a) \<and>
    list_all (\<lambda>t. lo \<le> t \<and> t \<le> lo + window s) (failed_times a (es @ [(c, e)])) \<longrightarrow>
      alerts (run s (es @ [(c, e)])) =
        alerts (run s es)
        @ (if failed_threshold s \<le> int (Suc (length (failed_times a es)))
           then [brute_force_alert (alert_ts c) a (Suc (length (failed_times a es))) (window s)]
           else []))
   \<and> (1 \<le> failed_threshold s \<and>
       list_all (\<lambda>x. x < lo - window s) (dd_get (failed s) [] a) \<and>
       list_all (\<lambda>t. lo \<le> t \<and> t \<le> lo + window s) (failed_times a es) \<longrightarrow>
      brute_force_counts a (alerts (run s es)) =
        brute_force_counts a (alerts s)
        @ map (\<lambda>k. Some (JInt (int k))) [nat (failed_threshold s) ..< Suc (length (failed_times a es))])
   \<and> (is_failed_for a e \<and> sorted (times (fs @ [(c, e)])) \<longrightarrow>
      alerts (run (SSHEdr ft ws it dr eb) (fs @ [(c, e)])) =
        alerts (run (SSHEdr ft ws it dr eb) fs)
        @ (if ft \<le> int (length (recent (ws * 1000000) (now c) (failed_times a fs @ [now c])))
           then [brute_force_alert (alert_ts c) a
                   (length (recent (ws * 1000000) (now c) (failed_times a fs @ [now c]))) (ws * 1000000)]
           else []))"
proof (intro conjI impI)
  assume h: "is_failed_for a e \<and>
    list_all (\<lambda>x. x < lo - window s) (dd_get (failed s) [] a) \<and>
    list_all (\<lambda>t. lo \<le> t \<and> t \<le> lo + window s) (failed_times a (es @ [(c, e)]))"
  then have "dd_get (failed (run s (es @ [(c, e)]))) [] a =
           (if failed_times a (es @ [(c, e)]) = [] then dd_get (failed s) [] a else failed_times a (es @ [(c, e)]))"
    by (intro run_failed_deque_burst [where lo = lo]) simp_all
  with h have len: "length (dd_get (failed (process (run s es) c e)) [] a) = Suc (length (failed_times a es))"
    by (simp add: run_snoc failed_times_snoc)
  show "alerts (run s (es @ [(c, e)])) =
        alerts (run s es)
        @ (if failed_threshold s \<le> int (Suc (length (failed_times a es)))
           then [brute_force_alert (alert_ts c) a (Suc (length (failed_times a es))) (window s)]
           else [])"
    using h process_failed_alerts [of a e "run s es" c]
    by (simp only: run_snoc fst_conv snd_conv len run_config)
next
  assume "1 \<le> failed_threshold s \<and>
       list_all (\<lambda>x. x < lo - window s) (dd_get (failed s) [] a) \<and>
       list_all (\<lambda>t. lo \<le> t \<and> t \<le> lo + window s) (failed_times a es)"
  then show "brute_force_counts a (alerts (run s es)) =
        brute_force_counts a (alerts s)
        @ map (\<lambda>k. Some (JInt (int k))) [nat (failed_threshold s) ..< Suc (length (failed_times a es))]"
    by (intro run_brute_force_counts_burst [where lo = lo]) simp_all
next
  assume h: "is_failed_for a e \<and> sorted (times (fs @ [(c, e)]))"
  then have "dd_get (failed (run (SSHEdr ft ws it dr eb) (fs @ [(c, e)]))) [] a =
     window_deque (window (SSHEdr ft ws it dr eb)) (failed_times a (fs @ [(c, e)]))"
    by (intro run_failed_deque) simp
  with h have dq: "dd_get (failed (process (run (SSHEdr ft ws it dr eb) fs) c e)) [] a =
     recent (ws * 1000000) (now c) (failed_times a fs @ [now c])"
    by (simp add: run_snoc failed_times_snoc window_deque_snoc_eq SSHEdr_def)
  have cfg: "failed_threshold (SSHEdr ft ws it dr eb) = ft" "window (SSHEdr ft ws it dr eb) = ws * 1000000"
    by (simp_all add: SSHEdr_def)
  show "alerts (run (SSHEdr ft ws it dr eb) (fs @ [(c, e)])) =
        alerts (run (SSHEdr ft ws it dr eb) fs)
        @ (if ft \<le> int (length (recent (ws * 1000000) (now c) (failed_times a fs @ [now c])))
           then [brute_force_alert (alert_ts c) a
                   (length (recent (ws * 1000000) (now c) (failed_times a fs @ [now c]))) (ws * 1000000)]
           else [])"
    using h process_failed_alerts [of a e "run (SSHEdr ft ws it dr eb) fs" c]
    by (simp only: run_snoc fst_conv snd_conv dq run_config cfg)
qed

text \<open>
  Where every cutoff is a datetime, the stream runs to its end without a raise.
\<close>

lemma process_or_raise_ok:
  "cutoff_ok (window s) (c, e) \<Longrightarrow> process_or_raise s c e = Returns (process s c e)"
  by (cases e) (simp_all add: record_failed_or_raise_def record_invalid_user_or_raise_def)

lemma run_or_raise_ok:
  "list_all (cutoff_ok (window s)) es \<Longrightarrow> run_or_raise s es = Returns (run s es)"
proof (induction es arbitrary: s)
  case Nil
  show ?case by simp
next
  case (Cons ce es)
  obtain c e where ce: "ce = (c, e)" by (cases ce)
  from Cons.prems have 1: "cutoff_ok (window s) (c, e)"
    and 2: "list_all (cutoff_ok (window (process s c e))) es"
    by (simp_all add: ce process_config)
  show ?case using Cons.IH [OF 2] by (simp add: ce process_or_raise_ok [OF 1])
qed

text \<open>
  C1, as stated, fails in two ways. The readings of the wall clock may go back: with a
  threshold of 3, a window of one second and failed logins from one address at readings
  2 s, 0 s and 2 s after some instant, the third event alerts with count 3 although the
  second arrived more than a window before it. And the window may be too long for the
  cutoff to be a datetime: with a window of \<open>10^11\<close> seconds and a threshold of 1 the
  first failed login raises \<open>OverflowError\<close> at the subtraction and no alert is emitted.
\<close>

theorem brute_force_window_counterexample:
  "run_or_raise (SSHEdr 3 1 8 True False)
     [(\<lparr> now = 63929304002000000, alert_ts = 63929304002000001, alert_ts2 = 63929304002000002 \<rparr>, FailedLogin ''203.0.113.5''),
      (\<lparr> now = 63929304000000000, alert_ts = 63929304000000001, alert_ts2 = 63929304000000002 \<rparr>, FailedLogin ''203.0.113.5''),
      (\<lparr> now = 63929304002000000, alert_ts = 63929304002000001, alert_ts2 = 63929304002000002 \<rparr>, FailedLogin ''203.0.113.5'')]
     = Returns (run (SSHEdr 3 1 8 True False)
     [(\<lparr> now = 63929304002000000, alert_ts = 63929304002000001, alert_ts2 = 63929304002000002 \<rparr>, FailedLogin ''203.0.113.5''),
      (\<lparr> now = 63929304000000000, alert_ts = 63929304000000001, alert_ts2 = 63929304000000002 \<rparr>, FailedLogin ''203.0.113.5''),
      (\<lparr> now = 63929304002000000, alert_ts = 63929304002000001, alert_ts2 = 63929304002000002 \<rparr>, FailedLogin ''203.0.113.5'')])
   \<and> alerts (run (SSHEdr 3 1 8 True False)
     [(\<lparr> now = 63929304002000000, alert_ts = 63929304002000001, alert_ts2 = 63929304002000002 \<rparr>, FailedLogin ''203.0.113.5''),
      (\<lparr> now = 63929304000000000, alert_ts = 63929304000000001, alert_ts2 = 63929304000000002 \<rparr>, FailedLogin ''203.0.113.5''),
      (\<lparr> now = 63929304002000000, alert_ts = 63929304002000001, alert_ts2 = 63929304002000002 \<rparr>, FailedLogin ''203.0.113.5'')])
     = [brute_force_alert 63929304002000001 ''203.0.113.5'' 3 1000000]
   \<and> recent 1000000 63929304002000000 (failed_times ''203.0.113.5''
     [(\<lparr> now = 63929304002000000, alert_ts = 63929304002000001, alert_ts2 = 63929304002000002 \<rparr>, FailedLogin ''203.0.113.5''),
      (\<lparr> now = 63929304000000000, alert_ts = 63929304000000001, alert_ts2 = 63929304000000002 \<rparr>, FailedLogin ''203.0.113.5''),
      (\<lparr> now = 63929304002000000, alert_ts = 63929304002000001, alert_ts2 = 63929304002000002 \<rparr>, FailedLogin ''203.0.113.5'')])
     = [63929304002000000, 63929304002000000]
   \<and> run_or_raise (SSHEdr 1 100000000000 8 True False)
     [(\<lparr> now = 63929304000000000, alert_ts = 63929304000000001, alert_ts2 = 63929304000000002 \<rparr>, FailedLogin ''203.0.113.5'')]
     = Raises OverflowError
         ((SSHEdr 1 100000000000 8 True False)\<lparr> failed := [''203.0.113.5'' \<mapsto> [63929304000000000]] \<rparr>)
   \<and> alerts ((SSHEdr 1 100000000000 8 True False)\<lparr> failed := [''203.0.113.5'' \<mapsto> [63929304000000000]] \<rparr>) = []"
  by (simp add: times_def failed_times_def recent_def record_failed_alerts record_failed_failed
        record_failed_frame dd_get_def SSHEdr_def brute_force_alert_def
        is_datetime_def record_failed_or_raise_def)

text \<open>
  C1, amended. Let no cutoff of the stream leave the range of datetimes. Take any state
  in which the entries of the address in \<open>failed\<close>, if any, are older than the window,
  and a stream whose failed events for that address (failed logins and PAM failures;
  other events may come in between) all arrive within one window, between \<open>lo\<close> and
  \<open>lo + window\<close>. Then the stream runs without a raise and the \<open>k\<close>-th of these
  events appends a \<open>brute_force_suspected\<close> alert exactly when
  \<open>failed_threshold \<le> k\<close>, with count \<open>k\<close>: for a threshold \<open>T\<close> of at least 1, none
  before the \<open>T\<close>-th, one with count \<open>T\<close> on the \<open>T\<close>-th, another with count
  \<open>T + 1\<close> on the next, and so on without cooldown. And in every run of a new engine
  over a stream whose arrival times never decrease, the count that a failed event compares
  with the threshold and reports is the number of failed events of the address, itself
  included, that arrived no earlier than \<open>now - window\<close>: older ones are left out.
\<close>

theorem brute_force_window:
  "(is_failed_for a e \<and>
    list_all (cutoff_ok (window s)) (es @ [(c, e)]) \<and>
    list_all (\<lambda>x. x < lo - window s) (dd_get (failed s) [] a) \<and>
    list_all (\<lambda>t. lo \<le> t \<and> t \<le> lo + window s) (failed_times a (es @ [(c, e)])) \<longrightarrow>
      run_or_raise s (es @ [(c, e)]) = Returns (run s (es @ [(c, e)])) \<and>
      alerts (run s (es @ [(c, e)])) =
        alerts (run s es)
        @ (if failed_threshold s \<le> int (Suc (length (failed_times a es)))
           then [brute_force_alert (alert_ts c) a (Suc (length (failed_times a es))) (window s)]
           else []))
   \<and> (1 \<le> failed_threshold s \<and>
       list_all (cutoff_ok (window s)) es \<and>
       list_all (\<lambda>x. x < lo - window s) (dd_get (failed s) [] a) \<and>
       list_all (\<lambda>t. lo \<le> t \<and> t \<le> lo + window s) (failed_times a es) \<longrightarrow>
      run_or_raise s es = Returns (run s es) \<and>
      brute_force_counts a (alerts (run s es)) =
        brute_force_counts a (alerts s)
        @ map (\<lambda>k. Some (JInt (int k))) [nat (failed_threshold s) ..< Suc (length (failed_times a es))])
   \<and> (is_failed_for a e \<and>
       list_all (cutoff_ok (ws * 1000000)) (fs @ [(c, e)]) \<and>
       sorted (times (fs @ [(c, e)])) \<longrightarrow>
      run_or_raise (SSHEdr ft ws it dr eb) (fs @ [(c, e)]) = Returns (run (SSHEdr ft ws it dr eb) (fs @ [(c, e)])) \<and>
      alerts (run (SSHEdr ft ws it dr eb) (fs @ [(c, e)])) =
        alerts (run (SSHEdr ft ws it dr eb) fs)
        @ (if ft \<le> int (length (recent (ws * 1000000) (now c) (failed_times a fs @ [now c])))
           then [brute_force_alert (alert_ts c) a
                   (length (recent (ws * 1000000) (now c) (failed_times a fs @ [now c]))) (ws * 1000000)]
           else []))"
proof -
  have w: "window (SSHEdr ft ws it dr eb) = ws * 1000000" by (simp add: SSHEdr_def)
  have r1: "list_all (cutoff_ok (window s)) (es @ [(c, e)]) \<longrightarrow>
              run_or_raise s (es @ [(c, e)]) = Returns (run s (es @ [(c, e)]))"
    using run_or_raise_ok [of s "es @ [(c, e)]"] by blast
  have r2: "list_all (cutoff_ok (window s)) es \<longrightarrow> run_or_raise s es = Returns (run s es)"
    using run_or_raise_ok [of s es] by blast
  have r3: "list_all (cutoff_ok (ws * 1000000)) (fs @ [(c, e)]) \<longrightarrow>
              run_or_raise (SSHEdr ft ws it dr eb) (fs @ [(c, e)]) =
                Returns (run (SSHEdr ft ws it dr eb) (fs @ [(c, e)]))"
    using run_or_raise_ok [of "SSHEdr ft ws it dr eb" "fs @ [(c, e)]"] by (simp only: w) blast
  show ?thesis
    using r1 r2 r3 brute_force_rule [of a e lo s es c fs ft ws it dr eb] by blast
qed

theorem brute_force_window_witness:
  "list_all (cutoff_ok (window (SSHEdr 5 60 8 True False)))
     [(\<lparr> now = 63929304000000000, alert_ts = 63929304000000001, alert_ts2 = 63929304000000002 \<rparr>, FailedLogin ''203.0.113.5''),
      (\<lparr> now = 63929304002000000, alert_ts = 63929304002000001, alert_ts2 = 63929304002000002 \<rparr>, FailedLogin ''203.0.113.5''),
      (\<lparr> now = 63929304004000000, alert_ts = 63929304004000001, alert_ts2 = 63929304004000002 \<rparr>, AuthFailure ''203.0.113.5''),
      (\<lparr> now = 63929304006000000, alert_ts = 63929304006000001, alert_ts2 = 63929304006000002 \<rparr>, FailedLogin ''203.0.113.5''),
      (\<lparr> now = 63929304008000000, alert_ts = 63929304008000001, alert_ts2 = 63929304008000002 \<rparr>, FailedLogin ''203.0.113.5''),
      (\<lparr> now = 63929304060000000, alert_ts = 63929304060000001, alert_ts2 = 63929304060000002 \<rparr>, FailedLogin ''203.0.113.5'')]
   \<and> list_all (\<lambda>x. x < 63929304000000000 - window (SSHEdr 5 60 8 True False)) (dd_get (failed (SSHEdr 5 60 8 True False)) [] ''203.0.113.5'')
   \<and> list_all (\<lambda>t. 63929304000000000 \<le> t \<and> t \<le> 63929304000000000 + window (SSHEdr 5 60 8 True False))
        (failed_times ''203.0.113.5''
          [(\<lparr> now = 63929304000000000, alert_ts = 63929304000000001, alert_ts2 = 63929304000000002 \<rparr>, FailedLogin ''203.0.113.5''),
           (\<lparr> now = 63929304002000000, alert_ts = 63929304002000001, alert_ts2 = 63929304002000002 \<rparr>, FailedLogin ''203.0.113.5''),
           (\<lparr> now = 63929304004000000, alert_ts = 63929304004000001, alert_ts2 = 63929304004000002 \<rparr>, AuthFailure ''203.0.113.5''),
           (\<lparr> now = 63929304006000000, alert_ts = 63929304006000001, alert_ts2 = 63929304006000002 \<rparr>, FailedLogin ''203.0.113.5''),
           (\<lparr> now = 63929304008000000, alert_ts = 63929304008000001, alert_ts2 = 63929304008000002 \<rparr>, FailedLogin ''203.0.113.5''),
           (\<lparr> now = 63929304060000000, alert_ts = 63929304060000001, alert_ts2 = 63929304060000002 \<rparr>, FailedLogin ''203.0.113.5'')])
   \<and> sorted (times
          [(\<lparr> now = 63929304000000000, alert_ts = 63929304000000001, alert_ts2 = 63929304000000002 \<rparr>, FailedLogin ''203.0.113.5''),
           (\<lparr> now = 63929304060000001, alert_ts = 63929304060000002, alert_ts2 = 63929304060000003 \<rparr>, FailedLogin ''203.0.113.5''),
           (\<lparr> now = 63929304060000002, alert_ts = 63929304060000003, alert_ts2 = 63929304060000004 \<rparr>, FailedLogin ''203.0.113.5'')])
   \<and> run_or_raise (SSHEdr 5 60 8 True False)
     [(\<lparr> now = 63929304000000000, alert_ts = 63929304000000001, alert_ts2 = 63929304000000002 \<rparr>, FailedLogin ''203.0.113.5''),
      (\<lparr> now = 63929304002000000, alert_ts = 63929304002000001, alert_ts2 = 63929304002000002 \<rparr>, FailedLogin ''203.0.113.5''),
      (\<lparr> now = 63929304004000000, alert_ts = 63929304004000001, alert_ts2 = 63929304004000002 \<rparr>, AuthFailure ''203.0.113.5''),
      (\<lparr> now = 63929304006000000, alert_ts = 63929304006000001, alert_ts2 = 63929304006000002 \<rparr>, FailedLogin ''203.0.113.5''),
      (\<lparr> now = 63929304008000000, alert_ts = 63929304008000001, alert_ts2 = 63929304008000002 \<rparr>, FailedLogin ''203.0.113.5'')]
     = Returns (run (SSHEdr 5 60 8 True False)
     [(\<lparr> now = 63929304000000000, alert_ts = 63929304000000001, alert_ts2 = 63929304000000002 \<rparr>, FailedLogin ''203.0.113.5''),
      (\<lparr> now = 63929304002000000, alert_ts = 63929304002000001, alert_ts2 = 63929304002000002 \<rparr>, FailedLogin ''203.0.113.5''),
      (\<lparr> now = 63929304004000000, alert_ts = 63929304004000001, alert_ts2 = 63929304004000002 \<rparr>, AuthFailure ''203.0.113.5''),
      (\<lparr> now = 63929304006000000, alert_ts = 63929304006000001, alert_ts2 = 63929304006000002 \<rparr>, FailedLogin ''203.0.113.5''),
      (\<lparr> now = 63929304008000000, alert_ts = 63929304008000001, alert_ts2 = 63929304008000002 \<rparr>, FailedLogin ''203.0.113.5'')])
   \<and> alerts (run (SSHEdr 5 60 8 True False)
     [(\<lparr> now = 63929304000000000, alert_ts = 63929304000000001, alert_ts2 = 63929304000000002 \<rparr>, FailedLogin ''203.0.113.5''),
      (\<lparr> now = 63929304002000000, alert_ts = 63929304002000001, alert_ts2 = 63929304002000002 \<rparr>, FailedLogin ''203.0.113.5''),
      (\<lparr> now = 63929304004000000, alert_ts = 63929304004000001, alert_ts2 = 63929304004000002 \<rparr>, AuthFailure ''203.0.113.5''),
      (\<lparr> now = 63929304006000000, alert_ts = 63929304006000001, alert_ts2 = 63929304006000002 \<rparr>, FailedLogin ''203.0.113.5''),
      (\<lparr> now = 63929304008000000, alert_ts = 63929304008000001, alert_ts2 = 63929304008000002 \<rparr>, FailedLogin ''203.0.113.5'')])
   = [brute_force_alert 63929304008000001 ''203.0.113.5'' 5 60000000]
   \<and> brute_force_counts ''203.0.113.5'' (alerts (run (SSHEdr 5 60 8 True False)
     [(\<lparr> now = 63929304000000000, alert_ts = 63929304000000001, alert_ts2 = 63929304000000002 \<rparr>, FailedLogin ''203.0.113.5''),
      (\<lparr> now = 63929304002000000, alert_ts = 63929304002000001, alert_ts2 = 63929304002000002 \<rparr>, FailedLogin ''203.0.113.5''),
      (\<lparr> now = 63929304004000000, alert_ts = 63929304004000001, alert_ts2 = 63929304004000002 \<rparr>, AuthFailure ''203.0.113.5''),
      (\<lparr> now = 63929304006000000, alert_ts = 63929304006000001, alert_ts2 = 63929304006000002 \<rparr>, FailedLogin ''203.0.113.5''),
      (\<lparr> now = 63929304008000000, alert_ts = 63929304008000001, alert_ts2 = 63929304008000002 \<rparr>, FailedLogin ''203.0.113.5''),
      (\<lparr> now = 63929304060000000, alert_ts = 63929304060000001, alert_ts2 = 63929304060000002 \<rparr>, FailedLogin ''203.0.113.5'')]))
   = [Some (JInt 5), Some (JInt 6)]
   \<and> alerts (run (SSHEdr 2 60 8 True False)
     [(\<lparr> now = 63929304000000000, alert_ts = 63929304000000001, alert_ts2 = 63929304000000002 \<rparr>, FailedLogin ''203.0.113.5''),
      (\<lparr> now = 63929304060000001, alert_ts = 63929304060000002, alert_ts2 = 63929304060000003 \<rparr>, FailedLogin ''203.0.113.5''),
      (\<lparr> now = 63929304060000002, alert_ts = 63929304060000003, alert_ts2 = 63929304060000004 \<rparr>, FailedLogin ''203.0.113.5'')])
   = [brute_force_alert 63929304060000003 ''203.0.113.5'' 2 60000000]"
  using brute_force_window [where a = "''203.0.113.5''" and e = "FailedLogin ''203.0.113.5''" and lo = 63929304000000000
          and s = "SSHEdr 5 60 8 True False"
          and c = "\<lparr> now = 63929304008000000, alert_ts = 63929304008000001, alert_ts2 = 63929304008000002 \<rparr>"
          and es = "[(\<lparr> now = 63929304000000000, alert_ts = 63929304000000001, alert_ts2 = 63929304000000002 \<rparr>, FailedLogin ''203.0.113.5''),
      (\<lparr> now = 63929304002000000, alert_ts = 63929304002000001, alert_ts2 = 63929304002000002 \<rparr>, FailedLogin ''203.0.113.5''),
      (\<lparr> now = 63929304004000000, alert_ts = 63929304004000001, alert_ts2 = 63929304004000002 \<rparr>, AuthFailure ''203.0.113.5''),
      (\<lparr> now = 63929304006000000, alert_ts = 63929304006000001, alert_ts2 = 63929304006000002 \<rparr>, FailedLogin ''203.0.113.5'')]"
          and fs = "[]" and ft = 5 and ws = 60 and it = 8 and dr = True and eb = False]
        brute_force_window [where a = "''203.0.113.5''" and e = "FailedLogin ''203.0.113.5''" and lo = 63929304000000000
          and s = "SSHEdr 5 60 8 True False"
          and c = "\<lparr> now = 63929304000000000, alert_ts = 63929304000000001, alert_ts2 = 63929304000000002 \<rparr>"
          and es = "[(\<lparr> now = 63929304000000000, alert_ts = 63929304000000001, alert_ts2 = 63929304000000002 \<rparr>, FailedLogin ''203.0.113.5''),
      (\<lparr> now = 63929304002000000, alert_ts = 63929304002000001, alert_ts2 = 63929304002000002 \<rparr>, FailedLogin ''203.0.113.5''),
      (\<lparr> now = 63929304004000000, alert_ts = 63929304004000001, alert_ts2 = 63929304004000002 \<rparr>, AuthFailure ''203.0.113.5''),
      (\<lparr> now = 63929304006000000, alert_ts = 63929304006000001, alert_ts2 = 63929304006000002 \<rparr>, FailedLogin ''203.0.113.5''),
      (\<lparr> now = 63929304008000000, alert_ts = 63929304008000001, alert_ts2 = 63929304008000002 \<rparr>, FailedLogin ''203.0.113.5''),
      (\<lparr> now = 63929304060000000, alert_ts = 63929304060000001, alert_ts2 = 63929304060000002 \<rparr>, FailedLogin ''203.0.113.5'')]"
          and fs = "[]" and ft = 5 and ws = 60 and it = 8 and dr = True and eb = False]
        brute_force_window [where a = "''203.0.113.5''" and e = "FailedLogin ''203.0.113.5''" and lo = 63929304000000000
          and s = "SSHEdr 2 60 8 True False"
          and c = "\<lparr> now = 63929304060000002, alert_ts = 63929304060000003, alert_ts2 = 63929304060000004 \<rparr>"
          and es = "[]"
          and fs = "[(\<lparr> now = 63929304000000000, alert_ts = 63929304000000001, alert_ts2 = 63929304000000002 \<rparr>, FailedLogin ''203.0.113.5''),
      (\<lparr> now = 63929304060000001, alert_ts = 63929304060000002, alert_ts2 = 63929304060000003 \<rparr>, FailedLogin ''203.0.113.5'')]"
          and ft = 2 and ws = 60 and it = 8 and dr = True and eb = False]
  by (simp add: times_def failed_times_def recent_def record_failed_alerts record_failed_failed
        record_failed_frame dd_get_def SSHEdr_def brute_force_counts_def brute_force_alert_def
        is_datetime_def record_failed_or_raise_def)

section \<open>The order of the patterns\<close>

text \<open>
  A match reaches its continuation with every group set that the pattern sets on all
  its paths; so the groups read by \<open>parse_line\<close> are never \<open>None\<close>.
\<close>

lemma rep_cont: "rep c s g k = Some r \<Longrightarrow> \<exists>s'. k s' g = Some r"
  by (induction s) (auto split: if_splits option.splits)

lemma match_re_cont:
  "match_re r s g k = Some res \<Longrightarrow>
   \<exists>s' g'. k s' g' = Some res \<and> dom g \<union> sure_groups r \<subseteq> dom g'"
proof (induction r arbitrary: s g k)
  case (Lit l)
  then have "k (drop (length l) s) g = Some res" by (simp split: if_splits)
  then have "k (drop (length l) s) g = Some res \<and> dom g \<union> sure_groups (Lit l) \<subseteq> dom g" by simp
  then show ?case by blast
next
  case (Plus c)
  then obtain x xs where "s = x # xs" and "rep c xs g k = Some res"
    by (auto split: list.splits if_splits)
  from rep_cont [OF this(2)] obtain s' where "k s' g = Some res" by blast
  then have "k s' g = Some res \<and> dom g \<union> sure_groups (Plus c) \<subseteq> dom g" by simp
  then show ?case by blast
next
  case (Star c)
  then have "rep c s g k = Some res" by simp
  from rep_cont [OF this] obtain s' where "k s' g = Some res" by blast
  then have "k s' g = Some res \<and> dom g \<union> sure_groups (Star c) \<subseteq> dom g" by simp
  then show ?case by blast
next
  case (Seq a b)
  from Seq.prems have "match_re a s g (\<lambda>s' g'. match_re b s' g' k) = Some res" by simp
  from Seq.IH(1) [OF this] obtain s1 g1
    where 1: "match_re b s1 g1 k = Some res" and d1: "dom g \<union> sure_groups a \<subseteq> dom g1" by blast
  from Seq.IH(2) [OF 1] obtain s2 g2
    where 2: "k s2 g2 = Some res" and d2: "dom g1 \<union> sure_groups b \<subseteq> dom g2" by blast
  from d1 d2 have "dom g \<union> (sure_groups a \<union> sure_groups b) \<subseteq> dom g2" by blast
  then have "dom g \<union> sure_groups (Seq a b) \<subseteq> dom g2" by simp
  with 2 show ?case by blast
next
  case (Alt a b)
  show ?case
  proof (cases "match_re a s g k")
    case None
    with Alt.prems have "match_re b s g k = Some res" by simp
    from Alt.IH(2) [OF this] obtain s' g' where "k s' g' = Some res" "dom g \<union> sure_groups b \<subseteq> dom g'"
      by blast
    then have "k s' g' = Some res \<and> dom g \<union> sure_groups (Alt a b) \<subseteq> dom g'" by (simp add: le_infI2)
    then show ?thesis by blast
  next
    case (Some r)
    with Alt.prems have "match_re a s g k = Some res" by simp
    from Alt.IH(1) [OF this] obtain s' g' where "k s' g' = Some res" "dom g \<union> sure_groups a \<subseteq> dom g'"
      by blast
    then have "k s' g' = Some res \<and> dom g \<union> sure_groups (Alt a b) \<subseteq> dom g'" by (simp add: le_infI1)
    then show ?thesis by blast
  qed
next
  case (Opt a)
  show ?case
  proof (cases "match_re a s g k")
    case None
    with Opt.prems have "k s g = Some res" by simp
    then have "k s g = Some res \<and> dom g \<union> sure_groups (Opt a) \<subseteq> dom g" by simp
    then show ?thesis by blast
  next
    case (Some r)
    with Opt.prems have "match_re a s g k = Some res" by simp
    from Opt.IH [OF this] obtain s' g' where "k s' g' = Some res" "dom g \<union> sure_groups a \<subseteq> dom g'"
      by blast
    then have "k s' g' = Some res \<and> dom g \<union> sure_groups (Opt a) \<subseteq> dom g'" by simp
    then show ?thesis by blast
  qed
next
  case (Grp n a)
  from Grp.prems
  have "match_re a s g (\<lambda>s' g'. k s' (g'(n \<mapsto> take (length s - length s') s))) = Some res" by simp
  from Grp.IH [OF this] obtain s1 g1
    where 1: "k s1 (g1(n \<mapsto> take (length s - length s1) s)) = Some res"
      and d1: "dom g \<union> sure_groups a \<subseteq> dom g1" by blast
  from d1 have "dom g \<union> insert n (sure_groups a) \<subseteq> insert n (dom g1)" by blast
  then have "dom g \<union> sure_groups (Grp n a) \<subseteq> dom (g1(n \<mapsto> take (length s - length s1) s))"
    by simp
  with 1 show ?case by blast
qed

lemma search_groups: "search r s = Some m \<Longrightarrow> sure_groups r \<subseteq> dom m"
proof (induction s)
  case Nil
  then have "match_re r [] Map.empty (\<lambda>s' g. Some g) = Some m" by simp
  from match_re_cont [OF this] show ?case by auto
next
  case (Cons x xs)
  show ?case
  proof (cases "match_re r (x # xs) Map.empty (\<lambda>s' g. Some g)")
    case None
    with Cons show ?thesis by simp
  next
    case (Some g)
    with Cons.prems have "match_re r (x # xs) Map.empty (\<lambda>s' g. Some g) = Some m" by simp
    from match_re_cont [OF this] show ?thesis by auto
  qed
qed

lemma group_Some: "n \<in> dom m \<Longrightarrow> m n = Some (group m n)"
  by (auto simp: group_def)

lemma FAILED_RE_group: "search FAILED_RE line = Some m \<Longrightarrow> m 3 = Some (group m 3)"
  by (rule group_Some) (auto dest!: search_groups simp: FAILED_RE_def)

lemma INVALID_USER_RE_group:
  "search INVALID_USER_RE line = Some m \<Longrightarrow> m 1 = Some (group m 1) \<and> m 2 = Some (group m 2)"
  by (auto dest!: search_groups intro!: group_Some simp: INVALID_USER_RE_def)

lemma ACCEPTED_RE_group:
  "search ACCEPTED_RE line = Some m \<Longrightarrow> m 1 = Some (group m 1) \<and> m 2 = Some (group m 2)"
  by (auto dest!: search_groups intro!: group_Some simp: ACCEPTED_RE_def)

lemma PAM_FAILED_RE_group: "search PAM_FAILED_RE line = Some m \<Longrightarrow> m 1 = Some (group m 1)"
  by (rule group_Some) (auto dest!: search_groups simp: PAM_FAILED_RE_def)

lemma parse_line_classify:
  "parse_line s c line = (case classify line of None \<Rightarrow> s | Some e \<Rightarrow> process s c e)"
  by (simp add: parse_line_def classify_def split: option.splits)

text \<open>
  C5. \<open>parse_line\<close> tries the failed-password, invalid-user, accepted-login and PAM
  patterns in this order and calls the handler of the first that matches, whatever the
  later ones would say: a failed-password match gives a failed login even when the
  invalid-user pattern matches the line too. A line that matches none of the four leaves
  the engine as it was. The model has no error value because the source has none to
  give here: a search returns a match or none, and the groups read are always set.
\<close>

theorem classify_priority:
  "(search FAILED_RE line = Some m \<longrightarrow>
      classify line = Some (FailedLogin (group m 3)) \<and>
      parse_line s c line = record_failed s c (group m 3) \<and> m 3 = Some (group m 3))
   \<and> (search FAILED_RE line = None \<and> search INVALID_USER_RE line = Some m \<longrightarrow>
      classify line = Some (InvalidUserAttempt (group m 2) (group m 1)) \<and>
      parse_line s c line = record_invalid_user s c (group m 2) (group m 1) \<and>
      m 1 = Some (group m 1) \<and> m 2 = Some (group m 2))
   \<and> (search FAILED_RE line = None \<and> search INVALID_USER_RE line = None \<and>
       search ACCEPTED_RE line = Some m \<longrightarrow>
      classify line = Some (SuccessfulLogin (group m 1) (group m 2)) \<and>
      parse_line s c line = record_success s c (group m 1) (group m 2) \<and>
      m 1 = Some (group m 1) \<and> m 2 = Some (group m 2))
   \<and> (search FAILED_RE line = None \<and> search INVALID_USER_RE line = None \<and>
       search ACCEPTED_RE line = None \<and> search PAM_FAILED_RE line = Some m \<longrightarrow>
      classify line = Some (AuthFailure (group m 1)) \<and>
      parse_line s c line = record_failed s c (group m 1) \<and> m 1 = Some (group m 1))
   \<and> (search FAILED_RE line = None \<and> search INVALID_USER_RE line = None \<and>
       search ACCEPTED_RE line = None \<and> search PAM_FAILED_RE line = None \<longrightarrow>
      classify line = None \<and> parse_line s c line = s)
   \<and> parse_line s c line = (case classify line of None \<Rightarrow> s | Some e \<Rightarrow> process s c e)"
  using FAILED_RE_group [of line m] INVALID_USER_RE_group [of line m]
    ACCEPTED_RE_group [of line m] PAM_FAILED_RE_group [of line m]
  by (simp add: parse_line_classify) (simp add: parse_line_def classify_def)

theorem classify_priority_witness:
  "search FAILED_RE ''Failed password for from 1.1.1.1 Invalid user x from 2.2.2.2'' \<noteq> None
   \<and> search INVALID_USER_RE ''Failed password for from 1.1.1.1 Invalid user x from 2.2.2.2'' \<noteq> None
   \<and> classify ''Failed password for from 1.1.1.1 Invalid user x from 2.2.2.2'' =
        Some (FailedLogin ''1.1.1.1'')
   \<and> classify ''Invalid user x from 2.2.2.2'' = Some (InvalidUserAttempt ''2.2.2.2'' ''x'')
   \<and> classify ''Accepted publickey for alice from 198.51.100.7'' =
        Some (SuccessfulLogin ''alice'' ''198.51.100.7'')
   \<and> classify ''authentication failure; rhost=192.168.1.50'' = Some (AuthFailure ''192.168.1.50'')
   \<and> classify ''hello'' = None
   \<and> parse_line (SSHEdr 5 60 8 True False) \<lparr> now = 0, alert_ts = 1, alert_ts2 = 2 \<rparr> ''hello'' =
        SSHEdr 5 60 8 True False"
proof -
  let ?both = "''Failed password for from 1.1.1.1 Invalid user x from 2.2.2.2''"
  let ?s = "SSHEdr 5 60 8 True False"
  let ?c = "\<lparr> now = 0, alert_ts = 1, alert_ts2 = 2 \<rparr>"
  have f1: "search FAILED_RE ?both \<noteq> None" by code_simp
  have i1: "search INVALID_USER_RE ?both \<noteq> None" by code_simp
  from f1 [unfolded not_None_eq] obtain m1 where m1: "search FAILED_RE ?both = Some m1" ..
  have c1: "classify ?both = Some (FailedLogin ''1.1.1.1'')" by code_simp
  from classify_priority [of ?both m1 ?s ?c] m1
  have u1: "classify ?both = Some (FailedLogin (group m1 3))" by blast
  have f2: "search FAILED_RE ''Invalid user x from 2.2.2.2'' = None" by code_simp
  have i2: "search INVALID_USER_RE ''Invalid user x from 2.2.2.2'' \<noteq> None" by code_simp
  from i2 [unfolded not_None_eq] obtain m2
    where m2: "search INVALID_USER_RE ''Invalid user x from 2.2.2.2'' = Some m2" ..
  from classify_priority [of "''Invalid user x from 2.2.2.2''" m2 ?s ?c] f2 m2
  have u2: "classify ''Invalid user x from 2.2.2.2'' = Some (InvalidUserAttempt (group m2 2) (group m2 1))"
    by blast
  have c2: "classify ''Invalid user x from 2.2.2.2'' = Some (InvalidUserAttempt ''2.2.2.2'' ''x'')"
    by code_simp
  let ?acc = "''Accepted publickey for alice from 198.51.100.7''"
  have f3: "search FAILED_RE ?acc = None" by code_simp
  have i3: "search INVALID_USER_RE ?acc = None" by code_simp
  have a3: "search ACCEPTED_RE ?acc \<noteq> None" by code_simp
  from a3 [unfolded not_None_eq] obtain m3 where m3: "search ACCEPTED_RE ?acc = Some m3" ..
  from classify_priority [of ?acc m3 ?s ?c] f3 i3 m3
  have u3: "classify ?acc = Some (SuccessfulLogin (group m3 1) (group m3 2))" by blast
  have c3: "classify ?acc = Some (SuccessfulLogin ''alice'' ''198.51.100.7'')" by code_simp
  let ?pam = "''authentication failure; rhost=192.168.1.50''"
  have f4: "search FAILED_RE ?pam = None" by code_simp
  have i4: "search INVALID_USER_RE ?pam = None" by code_simp
  have a4: "search ACCEPTED_RE ?pam = None" by code_simp
  have p4: "search PAM_FAILED_RE ?pam \<noteq> None" by code_simp
  from p4 [unfolded not_None_eq] obtain m4 where m4: "search PAM_FAILED_RE ?pam = Some m4" ..
  from classify_priority [of ?pam m4 ?s ?c] f4 i4 a4 m4
  have u4: "classify ?pam = Some (AuthFailure (group m4 1))" by blast
  have c4: "classify ?pam = Some (AuthFailure ''192.168.1.50'')" by code_simp
  have f5: "search FAILED_RE ''hello'' = None" by code_simp
  have i5: "search INVALID_USER_RE ''hello'' = None" by code_simp
  have a5: "search ACCEPTED_RE ''hello'' = None" by code_simp
  have p5: "search PAM_FAILED_RE ''hello'' = None" by code_simp
  from classify_priority [of "''hello''" Map.empty ?s ?c] f5 i5 a5 p5
  have u5: "classify ''hello'' = None \<and> parse_line ?s ?c ''hello'' = ?s" by blast
  from f1 i1 u1 c1 u2 c2 u3 c3 u4 c4 u5 show ?thesis by blast
qed

end
